theory Spec2Isabelle
  imports Complex_Main "HOL-Library.AList" "HOL-Library.Sublist"
begin

section \<open>Curve evaluator (metahumanToCC5.js, evaluateCurve)\<close>

text \<open>
  JavaScript numbers are modelled as real numbers throughout: every arithmetic step of the
  source is exact here, and \<open>NaN\<close> and infinities do not occur.

  A keyframe is the object \<open>{time, value}\<close>; the field \<open>value\<close> is called \<open>val\<close>.
\<close>

record keyframe =
  time :: real
  val :: real

text \<open>
  The bracket search of \<open>evaluateCurve\<close>:
  \<^verbatim>\<open>for (let i = 0; i < keys.length - 1; i++)
    if (inputValue >= keys[i].time && inputValue <= keys[i + 1].time) { ...; break; }\<close>
  It returns the first adjacent pair around the input, or \<open>None\<close> when the loop ends
  without a \<open>break\<close>.
\<close>

fun findBracket :: "keyframe list \<Rightarrow> real \<Rightarrow> (keyframe \<times> keyframe) option" where
  "findBracket (k # k' # ks) x =
     (if x \<ge> time k \<and> x \<le> time k' then Some (k, k') else findBracket (k' # ks) x)"
| "findBracket ks x = None"

text \<open>
  \<open>keys\<close> may be undefined (\<open>None\<close>) or empty: both pass the input through, before any
  clamping. Otherwise the input is clamped to \<open>[0, 1]\<close>, compared with the first and the
  last key, and interpolated on the bracket found (on first and last key when none is).
\<close>

definition evaluateCurve :: "keyframe list option \<Rightarrow> real \<Rightarrow> real" where
  "evaluateCurve keys inputValue =
     (case keys of
        None \<Rightarrow> inputValue
      | Some [] \<Rightarrow> inputValue
      | Some (k0 # ks) \<Rightarrow>
          (let x = max 0 (min 1 inputValue);
               firstKey = k0;
               lastKey = last (k0 # ks)
           in if x \<le> time firstKey then val firstKey
              else if x \<ge> time lastKey then val lastKey
              else
                (let (startKey, endKey) =
                       (case findBracket (k0 # ks) x of
                          Some p \<Rightarrow> p
                        | None \<Rightarrow> (firstKey, lastKey));
                     timeDelta = time endKey - time startKey
                 in if timeDelta = 0 then val startKey
                    else val startKey
                         + (val endKey - val startKey) * ((x - time startKey) / timeDelta))))"

section \<open>Mapping engine (metahumanToCC5.js)\<close>

text \<open>
  A mapping rule is one entry of \<open>METAHUMAN_TO_CC5_MAPPING\<close>. The source compares
  \<open>mode\<close> with the strings \<open>"Add"\<close> and \<open>"Limit"\<close>; any other string takes neither
  branch and is \<open>OtherMode\<close> here. The \<open>curve\<close> is optional.
\<close>

datatype mode = Add | Limit | OtherMode

record mappingRule =
  name :: string
  source :: "string list"
  target :: string
  mode :: mode
  curve :: "keyframe list option"

text \<open>\<^verbatim>\<open>// ========== NOSE WRINKLE & BROW COMBINATIONS ==========\<close>\<close>

definition MAPPING_NOSE_WRINKLE_AND_BROW_COMBINATIONS :: "mappingRule list" where
  "MAPPING_NOSE_WRINKLE_AND_BROW_COMBINATIONS = [
    \<lparr>name = ''NoseWrinkleL_BrowDownL'',
     source = [''CTRL_expressions_noseWrinkleL'',
               ''CTRL_expressions_browDownL''],
     target = ''C_NoseWrinkleL_BrowDownL'',
     mode = Add,
     curve = Some [\<lparr>time = 0, val = 0\<rparr>, \<lparr>time = 1, val = 1\<rparr>]\<rparr>,
    \<lparr>name = ''NoseWrinkleR_BrowDownR'',
     source = [''CTRL_expressions_noseWrinkleR'',
               ''CTRL_expressions_browDownR''],
     target = ''C_NoseWrinkleR_BrowDownR'',
     mode = Add,
     curve = Some [\<lparr>time = 0, val = 0\<rparr>, \<lparr>time = 1, val = 1\<rparr>]\<rparr>
  ]"

text \<open>\<^verbatim>\<open>// ========== EYE BLINK COMBINATIONS ==========\<close>\<close>

definition MAPPING_EYE_BLINK_COMBINATIONS :: "mappingRule list" where
  "MAPPING_EYE_BLINK_COMBINATIONS = [
    \<lparr>name = ''BlinkL'',
     source = [''CTRL_expressions_eyeBlinkL''],
     target = ''C_BlinkL'',
     mode = Add,
     curve = Some [\<lparr>time = 0, val = 0\<rparr>, \<lparr>time = 0.5, val = 1\<rparr>, \<lparr>time = 1, val = 0\<rparr>]\<rparr>,
    \<lparr>name = ''BlinkR'',
     source = [''CTRL_expressions_eyeBlinkR''],
     target = ''C_BlinkR'',
     mode = Add,
     curve = Some [\<lparr>time = 0, val = 0\<rparr>, \<lparr>time = 0.5, val = 1\<rparr>, \<lparr>time = 1, val = 0\<rparr>]\<rparr>,
    \<lparr>name = ''BlinkL_LookDownL'',
     source = [''CTRL_expressions_eyeBlinkL'',
               ''CTRL_expressions_eyeLookDownL''],
     target = ''C_BlinkL_LookDownL'',
     mode = Add,
     curve = Some [\<lparr>time = 0, val = 0\<rparr>, \<lparr>time = 1, val = 1\<rparr>]\<rparr>,
    \<lparr>name = ''BlinkR_LookDownR'',
     source = [''CTRL_expressions_eyeBlinkR'',
               ''CTRL_expressions_eyeLookDownR''],
     target = ''C_BlinkR_LookDownR'',
     mode = Add,
     curve = Some [\<lparr>time = 0, val = 0\<rparr>, \<lparr>time = 1, val = 1\<rparr>]\<rparr>,
    \<lparr>name = ''BlinkL_LookUpL'',
     source = [''CTRL_expressions_eyeBlinkL'',
               ''CTRL_expressions_eyeLookUpL''],
     target = ''C_BlinkL_LookUpL'',
     mode = Add,
     curve = Some [\<lparr>time = 0, val = 0\<rparr>, \<lparr>time = 1, val = 1\<rparr>]\<rparr>,
    \<lparr>name = ''BlinkR_LookUpR'',
     source = [''CTRL_expressions_eyeBlinkR'',
               ''CTRL_expressions_eyeLookUpR''],
     target = ''C_BlinkR_LookUpR'',
     mode = Add,
     curve = Some [\<lparr>time = 0, val = 0\<rparr>, \<lparr>time = 1, val = 1\<rparr>]\<rparr>,
    \<lparr>name = ''BlinkL_SquintInnerL'',
     source = [''CTRL_expressions_eyeBlinkL'',
               ''CTRL_expressions_eyeSquintInnerL''],
     target = ''C_BlinkL_SquintInnerL'',
     mode = Add,
     curve = Some [\<lparr>time = 0, val = 0\<rparr>, \<lparr>time = 1, val = 1\<rparr>]\<rparr>,
    \<lparr>name = ''BlinkR_SquintInnerR'',
     source = [''CTRL_expressions_eyeBlinkR'',
               ''CTRL_expressions_eyeSquintInnerR''],
     target = ''C_BlinkR_SquintInnerR'',
     mode = Add,
     curve = Some [\<lparr>time = 0, val = 0\<rparr>, \<lparr>time = 1, val = 1\<rparr>]\<rparr>,
    \<lparr>name = ''BlinkL_CheekRaiseL'',
     source = [''CTRL_expressions_eyeBlinkL'',
               ''CTRL_expressions_eyeCheekRaiseL''],
     target = ''C_BlinkL_CheekRaiseL'',
     mode = Add,
     curve = Some [\<lparr>time = 0, val = 0\<rparr>, \<lparr>time = 1, val = 1\<rparr>]\<rparr>,
    \<lparr>name = ''BlinkL_CheekRaiseR'',
     source = [''CTRL_expressions_eyeBlinkR'',
               ''CTRL_expressions_eyeCheekRaiseR''],
     target = ''C_BlinkR_CheekRaiseR'',
     mode = Add,
     curve = Some [\<lparr>time = 0, val = 0\<rparr>, \<lparr>time = 1, val = 1\<rparr>]\<rparr>,
    \<lparr>name = ''BlinkL_LookLeftL'',
     source = [''CTRL_expressions_eyeBlinkL'',
               ''CTRL_expressions_eyeLookLeftL''],
     target = ''C_BlinkL_LookLeftL'',
     mode = Add,
     curve = Some [\<lparr>time = 0, val = 0\<rparr>, \<lparr>time = 1, val = 1\<rparr>]\<rparr>,
    \<lparr>name = ''BlinkR_LookLeftR'',
     source = [''CTRL_expressions_eyeBlinkR'',
               ''CTRL_expressions_eyeLookLeftR''],
     target = ''C_BlinkR_LookLeftR'',
     mode = Add,
     curve = Some [\<lparr>time = 0, val = 0\<rparr>, \<lparr>time = 1, val = 1\<rparr>]\<rparr>,
    \<lparr>name = ''BlinkL_LookRightL'',
     source = [''CTRL_expressions_eyeBlinkL'',
               ''CTRL_expressions_eyeLookRightL''],
     target = ''C_BlinkL_LookRightL'',
     mode = Add,
     curve = Some [\<lparr>time = 0, val = 0\<rparr>, \<lparr>time = 1, val = 1\<rparr>]\<rparr>,
    \<lparr>name = ''BlinkR_LookRightR'',
     source = [''CTRL_expressions_eyeBlinkR'',
               ''CTRL_expressions_eyeLookRightR''],
     target = ''C_BlinkR_LookRightR'',
     mode = Add,
     curve = Some [\<lparr>time = 0, val = 0\<rparr>, \<lparr>time = 1, val = 1\<rparr>]\<rparr>,
    \<lparr>name = ''BlinkL_SquintInnerL_CheekRaiseL'',
     source = [''CTRL_expressions_eyeCheekRaiseL'',
               ''CTRL_expressions_eyeSquintInnerL'',
               ''CTRL_expressions_eyeBlinkL''],
     target = ''C_BlinkL_SquintInnerL_CheekRaiseL'',
     mode = Add,
     curve = Some [\<lparr>time = 0, val = 0\<rparr>, \<lparr>time = 1, val = 1\<rparr>]\<rparr>,
    \<lparr>name = ''BlinkR_SquintInnerR_CheekRaiseR'',
     source = [''CTRL_expressions_eyeCheekRaiseR'',
               ''CTRL_expressions_eyeSquintInnerR'',
               ''CTRL_expressions_eyeBlinkR''],
     target = ''C_BlinkR_SquintInnerR_CheekRaiseR'',
     mode = Add,
     curve = Some [\<lparr>time = 0, val = 0\<rparr>, \<lparr>time = 1, val = 1\<rparr>]\<rparr>
  ]"

text \<open>\<^verbatim>\<open>// ========== EYE WIDEN COMBINATIONS ==========\<close>\<close>

definition MAPPING_EYE_WIDEN_COMBINATIONS :: "mappingRule list" where
  "MAPPING_EYE_WIDEN_COMBINATIONS = [
    \<lparr>name = ''WidenL_LookDownL'',
     source = [''CTRL_expressions_eyeLookDownL'',
               ''CTRL_expressions_eyeWidenL''],
     target = ''C_WidenL_LookDownL'',
     mode = Add,
     curve = Some [\<lparr>time = 0, val = 0\<rparr>, \<lparr>time = 1, val = 1\<rparr>]\<rparr>,
    \<lparr>name = ''WidenR_LookDownR'',
     source = [''CTRL_expressions_eyeLookDownR'',
               ''CTRL_expressions_eyeWidenR''],
     target = ''C_WidenR_LookDownR'',
     mode = Add,
     curve = Some [\<lparr>time = 0, val = 0\<rparr>, \<lparr>time = 1, val = 1\<rparr>]\<rparr>
  ]"

text \<open>\<^verbatim>\<open>// ========== CHEEK & SQUINT COMBINATIONS ==========\<close>\<close>

definition MAPPING_CHEEK_AND_SQUINT_COMBINATIONS :: "mappingRule list" where
  "MAPPING_CHEEK_AND_SQUINT_COMBINATIONS = [
    \<lparr>name = ''CheekRaiseL_SquintInnerL'',
     source = [''CTRL_expressions_eyeCheekRaiseL'',
               ''CTRL_expressions_eyeSquintInnerL''],
     target = ''C_CheekRaiseL_SquintInnerL'',
     mode = Add,
     curve = Some [\<lparr>time = 0, val = 0\<rparr>, \<lparr>time = 1, val = 1\<rparr>]\<rparr>,
    \<lparr>name = ''CheekRaiseR_SquintInnerR'',
     source = [''CTRL_expressions_eyeCheekRaiseR'',
               ''CTRL_expressions_eyeSquintInnerR''],
     target = ''C_CheekRaiseR_SquintInnerR'',
     mode = Add,
     curve = Some [\<lparr>time = 0, val = 0\<rparr>, \<lparr>time = 1, val = 1\<rparr>]\<rparr>
  ]"

text \<open>\<^verbatim>\<open>// ========== CHEEK BLOW ==========\<close>\<close>

definition MAPPING_CHEEK_BLOW :: "mappingRule list" where
  "MAPPING_CHEEK_BLOW = [
    \<lparr>name = ''CheekBlowL_CheekBlowR'',
     source = [''CTRL_expressions_mouthCheekBlowL'',
               ''CTRL_expressions_mouthCheekBlowR''],
     target = ''C_CheekBlowL_CheekBlowR'',
     mode = Add,
     curve = Some [\<lparr>time = 0, val = 0\<rparr>, \<lparr>time = 1, val = 1\<rparr>]\<rparr>
  ]"

text \<open>\<^verbatim>\<open>// ========== CHEEK RAISE & CORNER PULL ==========\<close>\<close>

definition MAPPING_CHEEK_RAISE_AND_CORNER_PULL :: "mappingRule list" where
  "MAPPING_CHEEK_RAISE_AND_CORNER_PULL = [
    \<lparr>name = ''CheekRaiseL_MouthCornerPullL'',
     source = [''CTRL_expressions_eyeCheekRaiseL'',
               ''CTRL_expressions_mouthCornerPullL''],
     target = ''C_CheekRaiseL_CornerPullL'',
     mode = Add,
     curve = Some [\<lparr>time = 0, val = 0\<rparr>, \<lparr>time = 1, val = 1\<rparr>]\<rparr>,
    \<lparr>name = ''CheekRaiseR_MouthCornerPullR'',
     source = [''CTRL_expressions_eyeCheekRaiseR'',
               ''CTRL_expressions_mouthCornerPullR''],
     target = ''C_CheekRaiseR_CornerPullR'',
     mode = Add,
     curve = Some [\<lparr>time = 0, val = 0\<rparr>, \<lparr>time = 1, val = 1\<rparr>]\<rparr>
  ]"

text \<open>\<^verbatim>\<open>// ========== NOSE WRINKLE & UPPER LIP ==========\<close>\<close>

definition MAPPING_NOSE_WRINKLE_AND_UPPER_LIP :: "mappingRule list" where
  "MAPPING_NOSE_WRINKLE_AND_UPPER_LIP = [
    \<lparr>name = ''WrinkleL_UpperLipRaiseL'',
     source = [''CTRL_expressions_noseWrinkleL'',
               ''CTRL_expressions_mouthUpperLipRaiseL''],
     target = ''C_WrinkleL_UpperLipRaiseL'',
     mode = Add,
     curve = Some [\<lparr>time = 0, val = 0\<rparr>, \<lparr>time = 1, val = 1\<rparr>]\<rparr>,
    \<lparr>name = ''WrinkleR_UpperLipRaiseR'',
     source = [''CTRL_expressions_noseWrinkleR'',
               ''CTRL_expressions_mouthUpperLipRaiseR''],
     target = ''C_WrinkleR_UpperLipRaiseR'',
     mode = Add,
     curve = Some [\<lparr>time = 0, val = 0\<rparr>, \<lparr>time = 1, val = 1\<rparr>]\<rparr>,
    \<lparr>name = ''WrinkleL_MouthCornerPullL'',
     source = [''CTRL_expressions_noseWrinkleL'',
               ''CTRL_expressions_mouthCornerPullL''],
     target = ''C_WrinkleL_MouthCornerPullL'',
     mode = Add,
     curve = Some [\<lparr>time = 0, val = 0\<rparr>, \<lparr>time = 1, val = 1\<rparr>]\<rparr>,
    \<lparr>name = ''WrinkleR_MouthCornerPullR'',
     source = [''CTRL_expressions_noseWrinkleR'',
               ''CTRL_expressions_mouthCornerPullR''],
     target = ''C_WrinkleR_MouthCornerPullR'',
     mode = Add,
     curve = Some [\<lparr>time = 0, val = 0\<rparr>, \<lparr>time = 1, val = 1\<rparr>]\<rparr>
  ]"

text \<open>\<^verbatim>\<open>// ========== CORNER PULL COMBINATIONS ==========\<close>\<close>

definition MAPPING_CORNER_PULL_COMBINATIONS :: "mappingRule list" where
  "MAPPING_CORNER_PULL_COMBINATIONS = [
    \<lparr>name = ''CornerPullL_CornerPullR'',
     source = [''CTRL_expressions_mouthCornerPullL'',
               ''CTRL_expressions_mouthCornerPullR''],
     target = ''C_CornerPullL_CornerPullR'',
     mode = Add,
     curve = Some [\<lparr>time = 0, val = 0\<rparr>, \<lparr>time = 1, val = 1\<rparr>]\<rparr>,
    \<lparr>name = ''CornerPullL_LowerLipDepressL'',
     source = [''CTRL_expressions_mouthCornerPullL'',
               ''CTRL_expressions_mouthLowerLipDepressL''],
     target = ''C_CornerPullL_LowerLipDepressL'',
     mode = Add,
     curve = Some [\<lparr>time = 0, val = 0\<rparr>, \<lparr>time = 1, val = 1\<rparr>]\<rparr>,
    \<lparr>name = ''CornerPullR_LowerLipDepressR'',
     source = [''CTRL_expressions_mouthCornerPullR'',
               ''CTRL_expressions_mouthLowerLipDepressR''],
     target = ''C_CornerPullR_LowerLipDepressR'',
     mode = Add,
     curve = Some [\<lparr>time = 0, val = 0.009009\<rparr>, \<lparr>time = 1, val = 1\<rparr>]\<rparr>,
    \<lparr>name = ''CornerPullL_UpperLipRaiseL'',
     source = [''CTRL_expressions_mouthCornerPullL'',
               ''CTRL_expressions_mouthUpperLipRaiseL''],
     target = ''C_CornerPullL_UpperLipRaiseL'',
     mode = Add,
     curve = Some [\<lparr>time = 0, val = - 0.003497\<rparr>, \<lparr>time = 1, val = 1\<rparr>]\<rparr>,
    \<lparr>name = ''CornerPullR_UpperLipRaiseR'',
     source = [''CTRL_expressions_mouthCornerPullR'',
               ''CTRL_expressions_mouthUpperLipRaiseR''],
     target = ''C_CornerPullR_UpperLipRaiseR'',
     mode = Add,
     curve = Some [\<lparr>time = 0, val = - 0.003497\<rparr>, \<lparr>time = 1, val = 1\<rparr>]\<rparr>,
    \<lparr>name = ''CornerPullL_StretchL'',
     source = [''CTRL_expressions_mouthCornerPullL'',
               ''CTRL_expressions_mouthStretchL''],
     target = ''C_CornerPullL_StretchL'',
     mode = Add,
     curve = Some [\<lparr>time = 0, val = 0\<rparr>, \<lparr>time = 1, val = 1\<rparr>]\<rparr>,
    \<lparr>name = ''CornerPullR_StretchR'',
     source = [''CTRL_expressions_mouthCornerPullR'',
               ''CTRL_expressions_mouthStretchR''],
     target = ''C_CornerPullR_StretchR'',
     mode = Add,
     curve = Some [\<lparr>time = 0, val = 0\<rparr>, \<lparr>time = 1, val = 1\<rparr>]\<rparr>,
    \<lparr>name = ''StretchL_CornerPullL_LowerLipDepressL'',
     source = [''CTRL_expressions_mouthStretchL'',
               ''CTRL_expressions_mouthCornerPullL'',
               ''CTRL_expressions_mouthLowerLipDepressL''],
     target = ''C_StretchL_CornerPullL_LowerLipDepressL'',
     mode = Add,
     curve = Some [\<lparr>time = 0, val = 0\<rparr>, \<lparr>time = 1, val = 1\<rparr>]\<rparr>,
    \<lparr>name = ''StretchR_CornerPullR_LowerLipDepressR'',
     source = [''CTRL_expressions_mouthStretchR'',
               ''CTRL_expressions_mouthCornerPullR'',
               ''CTRL_expressions_mouthLowerLipDepressR''],
     target = ''C_StretchR_CornerPullR_LowerLipDepressR'',
     mode = Add,
     curve = Some [\<lparr>time = 0, val = 0\<rparr>, \<lparr>time = 1, val = 1\<rparr>]\<rparr>,
    \<lparr>name = ''CornerPullL_DimpleL'',
     source = [''CTRL_expressions_mouthCornerPullL'',
               ''CTRL_expressions_mouthDimpleL''],
     target = ''C_CornerPullL_DimpleL'',
     mode = Add,
     curve = Some [\<lparr>time = 0, val = 0\<rparr>, \<lparr>time = 1, val = 1\<rparr>]\<rparr>,
    \<lparr>name = ''CornerPullR_DimpleR'',
     source = [''CTRL_expressions_mouthCornerPullR'',
               ''CTRL_expressions_mouthDimpleR''],
     target = ''C_CornerPullR_DimpleR'',
     mode = Add,
     curve = Some [\<lparr>time = 0, val = 0\<rparr>, \<lparr>time = 1, val = 1\<rparr>]\<rparr>,
    \<lparr>name = ''CornerPullL_SharpCornerPullL'',
     source = [''CTRL_expressions_mouthCornerPullL'',
               ''CTRL_expressions_mouthSharpCornerPullL''],
     target = ''C_CornerPullL_SharpCornerPullL'',
     mode = Add,
     curve = Some [\<lparr>time = 0, val = 0\<rparr>, \<lparr>time = 1, val = 0.5\<rparr>]\<rparr>,
    \<lparr>name = ''CornerPullR_SharpCornerPullR'',
     source = [''CTRL_expressions_mouthCornerPullR'',
               ''CTRL_expressions_mouthSharpCornerPullR''],
     target = ''C_CornerPullR_SharpCornerPullR'',
     mode = Add,
     curve = Some [\<lparr>time = 0, val = 0\<rparr>, \<lparr>time = 1, val = 0.5\<rparr>]\<rparr>
  ]"

text \<open>\<^verbatim>\<open>// ========== FUNNEL & CORNER PULL ==========\<close>\<close>

definition MAPPING_FUNNEL_AND_CORNER_PULL :: "mappingRule list" where
  "MAPPING_FUNNEL_AND_CORNER_PULL = [
    \<lparr>name = ''FunnelUL_CornerPullL'',
     source = [''CTRL_expressions_mouthCornerPullL'',
               ''CTRL_expressions_mouthFunnelUL''],
     target = ''C_FunnelUL_CornerPullL'',
     mode = Add,
     curve = Some [\<lparr>time = 0, val = 0\<rparr>, \<lparr>time = 1, val = 1\<rparr>]\<rparr>,
    \<lparr>name = ''FunnelUR_CornerPullR'',
     source = [''CTRL_expressions_mouthCornerPullR'',
               ''CTRL_expressions_mouthFunnelUR''],
     target = ''C_FunnelUR_CornerPullR'',
     mode = Add,
     curve = Some [\<lparr>time = 0, val = 0\<rparr>, \<lparr>time = 1, val = 1\<rparr>]\<rparr>,
    \<lparr>name = ''FunnelDL_CornerPullL'',
     source = [''CTRL_expressions_mouthCornerPullL'',
               ''CTRL_expressions_mouthFunnelDL''],
     target = ''C_FunnelDL_CornerPullL'',
     mode = Add,
     curve = Some [\<lparr>time = 0, val = 0\<rparr>, \<lparr>time = 1, val = 1\<rparr>]\<rparr>,
    \<lparr>name = ''FunnelDR_CornerPullR'',
     source = [''CTRL_expressions_mouthCornerPullR'',
               ''CTRL_expressions_mouthFunnelDR''],
     target = ''C_FunnelDR_CornerPullR'',
     mode = Add,
     curve = Some [\<lparr>time = 0, val = 0\<rparr>, \<lparr>time = 1, val = 1\<rparr>]\<rparr>
  ]"

text \<open>\<^verbatim>\<open>// ========== LIPS PURSE & CORNER PULL ==========\<close>\<close>

definition MAPPING_LIPS_PURSE_AND_CORNER_PULL :: "mappingRule list" where
  "MAPPING_LIPS_PURSE_AND_CORNER_PULL = [
    \<lparr>name = ''LipsPurseUL_CornerPullL'',
     source = [''CTRL_expressions_mouthCornerPullL'',
               ''CTRL_expressions_mouthLipsPurseUL''],
     target = ''C_LipsPurseUL_CornerPullL'',
     mode = Add,
     curve = Some [\<lparr>time = 0, val = 0\<rparr>, \<lparr>time = 1, val = 1\<rparr>]\<rparr>,
    \<lparr>name = ''LipsPurseUR_CornerPullR'',
     source = [''CTRL_expressions_mouthCornerPullR'',
               ''CTRL_expressions_mouthLipsPurseUR''],
     target = ''C_LipsPurseUR_CornerPullR'',
     mode = Add,
     curve = Some [\<lparr>time = 0, val = 0\<rparr>, \<lparr>time = 1, val = 1\<rparr>]\<rparr>,
    \<lparr>name = ''LipsPurseDL_CornerPullL'',
     source = [''CTRL_expressions_mouthCornerPullL'',
               ''CTRL_expressions_mouthLipsPurseDL''],
     target = ''C_LipsPurseDL_CornerPullL'',
     mode = Add,
     curve = Some [\<lparr>time = 0, val = 0\<rparr>, \<lparr>time = 1, val = 1\<rparr>]\<rparr>,
    \<lparr>name = ''LipsPurseDR_CornerPullR'',
     source = [''CTRL_expressions_mouthCornerPullR'',
               ''CTRL_expressions_mouthLipsPurseDR''],
     target = ''C_LipsPurseDR_CornerPullR'',
     mode = Add,
     curve = Some [\<lparr>time = 0, val = 0\<rparr>, \<lparr>time = 1, val = 1\<rparr>]\<rparr>,
    \<lparr>name = ''FunnelUL_LipsPurseUL_CornerPullL'',
     source = [''CTRL_expressions_mouthCornerPullL'',
               ''CTRL_expressions_mouthLipsPurseUL'',
               ''CTRL_expressions_mouthFunnelUL''],
     target = ''C_FunnelUL_LipsPurseUL_CornerPullL'',
     mode = Add,
     curve = Some [\<lparr>time = 0, val = 0\<rparr>, \<lparr>time = 1, val = 1\<rparr>]\<rparr>,
    \<lparr>name = ''FunnelUR_LipsPurseUR_CornerPullR'',
     source = [''CTRL_expressions_mouthCornerPullR'',
               ''CTRL_expressions_mouthLipsPurseUR'',
               ''CTRL_expressions_mouthFunnelUR''],
     target = ''C_FunnelUR_LipsPurseUR_CornerPullR'',
     mode = Add,
     curve = Some [\<lparr>time = 0, val = 0\<rparr>, \<lparr>time = 1, val = 1\<rparr>]\<rparr>,
    \<lparr>name = ''FunnelDL_LipsPurseDL_CornerPullL'',
     source = [''CTRL_expressions_mouthCornerPullL'',
               ''CTRL_expressions_mouthLipsPurseDL'',
               ''CTRL_expressions_mouthFunnelDL''],
     target = ''C_FunnelDL_LipsPurseDL_CornerPullL'',
     mode = Add,
     curve = Some [\<lparr>time = 0, val = 0\<rparr>, \<lparr>time = 1, val = 1\<rparr>]\<rparr>,
    \<lparr>name = ''FunnelDR_LipsPurseDR_CornerPullR'',
     source = [''CTRL_expressions_mouthCornerPullR'',
               ''CTRL_expressions_mouthLipsPurseDR'',
               ''CTRL_expressions_mouthFunnelDR''],
     target = ''C_FunnelDR_LipsPurseDR_CornerPullR'',
     mode = Add,
     curve = Some [\<lparr>time = 0, val = 0\<rparr>, \<lparr>time = 1, val = 1\<rparr>]\<rparr>
  ]"

text \<open>\<^verbatim>\<open>// ========== LIPS PURSE & FUNNEL ==========\<close>\<close>

definition MAPPING_LIPS_PURSE_AND_FUNNEL :: "mappingRule list" where
  "MAPPING_LIPS_PURSE_AND_FUNNEL = [
    \<lparr>name = ''LipsPurseUL_FunnelUL'',
     source = [''CTRL_expressions_mouthLipsPurseUL'',
               ''CTRL_expressions_mouthFunnelUL''],
     target = ''C_LipsPurseUL_FunnelUL'',
     mode = Add,
     curve = Some [\<lparr>time = 0, val = 0\<rparr>, \<lparr>time = 1, val = 1\<rparr>]\<rparr>,
    \<lparr>name = ''LipsPurseUR_FunnelUR'',
     source = [''CTRL_expressions_mouthLipsPurseUR'',
               ''CTRL_expressions_mouthFunnelUR''],
     target = ''C_LipsPurseUR_FunnelUR'',
     mode = Add,
     curve = Some [\<lparr>time = 0, val = 0\<rparr>, \<lparr>time = 1, val = 1\<rparr>]\<rparr>,
    \<lparr>name = ''LipsPurseDL_FunnelDL'',
     source = [''CTRL_expressions_mouthLipsPurseDL'',
               ''CTRL_expressions_mouthFunnelDL''],
     target = ''C_LipsPurseDL_FunnelDL'',
     mode = Add,
     curve = Some [\<lparr>time = 0, val = 0\<rparr>, \<lparr>time = 1, val = 1\<rparr>]\<rparr>,
    \<lparr>name = ''LipsPurseDR_FunnelDR'',
     source = [''CTRL_expressions_mouthLipsPurseDR'',
               ''CTRL_expressions_mouthFunnelDR''],
     target = ''C_LipsPurseDR_FunnelDR'',
     mode = Add,
     curve = Some [\<lparr>time = 0, val = 0\<rparr>, \<lparr>time = 1, val = 1\<rparr>]\<rparr>
  ]"

text \<open>\<^verbatim>\<open>// ========== FUNNEL & CHIN RAISE ==========\<close>\<close>

definition MAPPING_FUNNEL_AND_CHIN_RAISE :: "mappingRule list" where
  "MAPPING_FUNNEL_AND_CHIN_RAISE = [
    \<lparr>name = ''FunnelUL_ChinRaiseUL'',
     source = [''CTRL_expressions_mouthFunnelUL'',
               ''CTRL_expressions_jawChinRaiseUL''],
     target = ''C_FunnelUL_ChinRaiseUL'',
     mode = Add,
     curve = Some [\<lparr>time = 0, val = 0\<rparr>, \<lparr>time = 1, val = 1\<rparr>]\<rparr>,
    \<lparr>name = ''FunnelUR_ChinRaiseUR'',
     source = [''CTRL_expressions_mouthFunnelUR'',
               ''CTRL_expressions_jawChinRaiseUR''],
     target = ''C_FunnelUR_ChinRaiseUR'',
     mode = Add,
     curve = Some [\<lparr>time = 0, val = 0\<rparr>, \<lparr>time = 1, val = 1\<rparr>]\<rparr>
  ]"

text \<open>\<^verbatim>\<open>// ========== LIPS PURSE & LIPS TOWARDS ==========\<close>\<close>

definition MAPPING_LIPS_PURSE_AND_LIPS_TOWARDS :: "mappingRule list" where
  "MAPPING_LIPS_PURSE_AND_LIPS_TOWARDS = [
    \<lparr>name = ''LipsPurseUL_LipsTowardsUL'',
     source = [''CTRL_expressions_mouthLipsPurseUL'',
               ''CTRL_expressions_mouthLipsTowardsUL''],
     target = ''C_LipsPurseUL_LipsTowardsUL'',
     mode = Add,
     curve = Some [\<lparr>time = 0, val = 0\<rparr>, \<lparr>time = 1, val = 1\<rparr>]\<rparr>,
    \<lparr>name = ''LipsPurseUR_LipsTowardsUR'',
     source = [''CTRL_expressions_mouthLipsPurseUR'',
               ''CTRL_expressions_mouthLipsTowardsUR''],
     target = ''C_LipsPurseUR_LipsTowardsUR'',
     mode = Add,
     curve = Some [\<lparr>time = 0, val = 0\<rparr>, \<lparr>time = 1, val = 1\<rparr>]\<rparr>,
    \<lparr>name = ''LipsPurseDL_LipsTowardsDL'',
     source = [''CTRL_expressions_mouthLipsPurseDL'',
               ''CTRL_expressions_mouthLipsTowardsDL''],
     target = ''C_LipsPurseDL_LipsTowardsDL'',
     mode = Add,
     curve = Some [\<lparr>time = 0, val = 0\<rparr>, \<lparr>time = 1, val = 1\<rparr>]\<rparr>,
    \<lparr>name = ''LipsPurseDR_LipsTowardsDR'',
     source = [''CTRL_expressions_mouthLipsPurseDR'',
               ''CTRL_expressions_mouthLipsTowardsDR''],
     target = ''C_LipsPurseDR_LipsTowardsDR'',
     mode = Add,
     curve = Some [\<lparr>time = 0, val = 0\<rparr>, \<lparr>time = 1, val = 1\<rparr>]\<rparr>,
    \<lparr>name = ''LipsPurseUL_LipsTowardsUL_FunnelUL'',
     source = [''CTRL_expressions_mouthLipsPurseUL'',
               ''CTRL_expressions_mouthLipsTowardsUL'',
               ''CTRL_expressions_mouthFunnelUL''],
     target = ''C_LipsPurseUL_LipsTowardsUL_FunnelUL'',
     mode = Add,
     curve = Some [\<lparr>time = 0, val = 0\<rparr>, \<lparr>time = 1, val = 1\<rparr>]\<rparr>,
    \<lparr>name = ''LipsPurseUR_LipsTowardsUR_FunnelUR'',
     source = [''CTRL_expressions_mouthLipsPurseUR'',
               ''CTRL_expressions_mouthLipsTowardsUR'',
               ''CTRL_expressions_mouthFunnelUR''],
     target = ''C_LipsPurseUR_LipsTowardsUR_FunnelUR'',
     mode = Add,
     curve = Some [\<lparr>time = 0, val = 0\<rparr>, \<lparr>time = 1, val = 1\<rparr>]\<rparr>,
    \<lparr>name = ''LipsPurseDL_LipsTowardsDL_FunnelDL'',
     source = [''CTRL_expressions_mouthLipsPurseDL'',
               ''CTRL_expressions_mouthLipsTowardsDL'',
               ''CTRL_expressions_mouthFunnelDL''],
     target = ''C_LipsPurseDL_LipsTowardsDL_FunnelDL'',
     mode = Add,
     curve = Some [\<lparr>time = 0, val = 0\<rparr>, \<lparr>time = 1, val = 1\<rparr>]\<rparr>,
    \<lparr>name = ''LipsPurseDR_LipsTowardsDR_FunnelDR'',
     source = [''CTRL_expressions_mouthLipsPurseDR'',
               ''CTRL_expressions_mouthLipsTowardsDR'',
               ''CTRL_expressions_mouthFunnelDR''],
     target = ''C_LipsPurseDR_LipsTowardsDR_FunnelDR'',
     mode = Add,
     curve = Some [\<lparr>time = 0, val = 0\<rparr>, \<lparr>time = 1, val = 1\<rparr>]\<rparr>
  ]"

text \<open>\<^verbatim>\<open>// ========== LIPS PURSE & LIPS TOGETHER ==========\<close>\<close>

definition MAPPING_LIPS_PURSE_AND_LIPS_TOGETHER :: "mappingRule list" where
  "MAPPING_LIPS_PURSE_AND_LIPS_TOGETHER = [
    \<lparr>name = ''LipsPurseUL_LipsTogetherUL'',
     source = [''CTRL_expressions_mouthLipsPurseUL'',
               ''CTRL_expressions_mouthLipsTogetherUL''],
     target = ''C_LipsPurseUL_LipsTogetherUL'',
     mode = Add,
     curve = Some [\<lparr>time = 0, val = 0\<rparr>, \<lparr>time = 1, val = 0.5\<rparr>]\<rparr>,
    \<lparr>name = ''LipsPurseUR_LipsTogetherUR'',
     source = [''CTRL_expressions_mouthLipsPurseUR'',
               ''CTRL_expressions_mouthLipsTogetherUR''],
     target = ''C_LipsPurseUR_LipsTogetherUR'',
     mode = Add,
     curve = Some [\<lparr>time = 0, val = 0\<rparr>, \<lparr>time = 1, val = 0.5\<rparr>]\<rparr>,
    \<lparr>name = ''LipsPurseDL_LipsTogetherDL'',
     source = [''CTRL_expressions_mouthLipsPurseDL'',
               ''CTRL_expressions_mouthLipsTogetherDL''],
     target = ''C_LipsPurseDL_LipsTogetherDL'',
     mode = Add,
     curve = Some [\<lparr>time = 0, val = 0\<rparr>, \<lparr>time = 1, val = 0.5\<rparr>]\<rparr>,
    \<lparr>name = ''LipsPurseDR_LipsTogetherDR'',
     source = [''CTRL_expressions_mouthLipsPurseDR'',
               ''CTRL_expressions_mouthLipsTogetherDR''],
     target = ''C_LipsPurseDR_LipsTogetherDR'',
     mode = Add,
     curve = Some [\<lparr>time = 0, val = 0\<rparr>, \<lparr>time = 1, val = 0.5\<rparr>]\<rparr>
  ]"

text \<open>\<^verbatim>\<open>// ========== FUNNEL & UPPER/LOWER LIP ==========\<close>\<close>

definition MAPPING_FUNNEL_AND_UPPER_LOWER_LIP :: "mappingRule list" where
  "MAPPING_FUNNEL_AND_UPPER_LOWER_LIP = [
    \<lparr>name = ''FunnelUL_UpperLipRaiseL'',
     source = [''CTRL_expressions_mouthFunnelUL'',
               ''CTRL_expressions_mouthUpperLipRaiseL''],
     target = ''C_FunnelUL_UpperLipRaiseL'',
     mode = Add,
     curve = Some [\<lparr>time = 0, val = 0\<rparr>, \<lparr>time = 1, val = 0.5\<rparr>]\<rparr>,
    \<lparr>name = ''FunnelUR_UpperLipRaiseR'',
     source = [''CTRL_expressions_mouthFunnelUR'',
               ''CTRL_expressions_mouthUpperLipRaiseR''],
     target = ''C_FunnelUR_UpperLipRaiseR'',
     mode = Add,
     curve = Some [\<lparr>time = 0, val = 0\<rparr>, \<lparr>time = 1, val = 0.5\<rparr>]\<rparr>,
    \<lparr>name = ''FunnelDL_LowerLipDepressL'',
     source = [''CTRL_expressions_mouthFunnelDL'',
               ''CTRL_expressions_mouthLowerLipDepressL''],
     target = ''C_FunnelDL_LowerLipDepressL'',
     mode = Add,
     curve = Some [\<lparr>time = 0, val = 0\<rparr>, \<lparr>time = 1, val = 0.5\<rparr>]\<rparr>,
    \<lparr>name = ''FunnelDR_LowerLipDepressR'',
     source = [''CTRL_expressions_mouthFunnelDR'',
               ''CTRL_expressions_mouthLowerLipDepressR''],
     target = ''C_FunnelDR_LowerLipDepressR'',
     mode = Add,
     curve = Some [\<lparr>time = 0, val = 0\<rparr>, \<lparr>time = 1, val = 0.5\<rparr>]\<rparr>
  ]"

text \<open>\<^verbatim>\<open>// ========== FUNNEL & LIPS TOWARDS ==========\<close>\<close>

definition MAPPING_FUNNEL_AND_LIPS_TOWARDS :: "mappingRule list" where
  "MAPPING_FUNNEL_AND_LIPS_TOWARDS = [
    \<lparr>name = ''FunnelUL_LipsTowardsUL'',
     source = [''CTRL_expressions_mouthFunnelUL'',
               ''CTRL_expressions_mouthLipsTowardsUL''],
     target = ''C_FunnelUL_LipsTowardsUL'',
     mode = Add,
     curve = Some [\<lparr>time = 0, val = 0\<rparr>, \<lparr>time = 1, val = 1\<rparr>]\<rparr>,
    \<lparr>name = ''FunnelUR_LipsTowardsUR'',
     source = [''CTRL_expressions_mouthFunnelUR'',
               ''CTRL_expressions_mouthLipsTowardsUR''],
     target = ''C_FunnelUR_LipsTowardsUR'',
     mode = Add,
     curve = Some [\<lparr>time = 0, val = 0\<rparr>, \<lparr>time = 1, val = 1\<rparr>]\<rparr>,
    \<lparr>name = ''FunnelDL_LipsTowardsDL'',
     source = [''CTRL_expressions_mouthFunnelDL'',
               ''CTRL_expressions_mouthLipsTowardsDL''],
     target = ''C_FunnelDL_LipsTowardsDL'',
     mode = Add,
     curve = Some [\<lparr>time = 0, val = 0\<rparr>, \<lparr>time = 1, val = 1\<rparr>]\<rparr>,
    \<lparr>name = ''FunnelDR_LipsTowardsDR'',
     source = [''CTRL_expressions_mouthFunnelDR'',
               ''CTRL_expressions_mouthLipsTowardsDR''],
     target = ''C_FunnelDR_LipsTowardsDR'',
     mode = Add,
     curve = Some [\<lparr>time = 0, val = 0\<rparr>, \<lparr>time = 1, val = 1\<rparr>]\<rparr>
  ]"

text \<open>\<^verbatim>\<open>// ========== STRETCH COMBINATIONS ==========\<close>\<close>

definition MAPPING_STRETCH_COMBINATIONS :: "mappingRule list" where
  "MAPPING_STRETCH_COMBINATIONS = [
    \<lparr>name = ''StretchL_LowerLipDepressL'',
     source = [''CTRL_expressions_mouthStretchL'',
               ''CTRL_expressions_mouthLowerLipDepressL''],
     target = ''C_StretchL_LowerLipDepressL'',
     mode = Add,
     curve = Some [\<lparr>time = 0, val = 0\<rparr>, \<lparr>time = 1, val = 1\<rparr>]\<rparr>,
    \<lparr>name = ''StretchR_LowerLipDepressR'',
     source = [''CTRL_expressions_mouthStretchR'',
               ''CTRL_expressions_mouthLowerLipDepressR''],
     target = ''C_StretchR_LowerLipDepressR'',
     mode = Add,
     curve = Some [\<lparr>time = 0, val = 0\<rparr>, \<lparr>time = 1, val = 1\<rparr>]\<rparr>,
    \<lparr>name = ''StretchL_StretchR'',
     source = [''CTRL_expressions_mouthStretchL'',
               ''CTRL_expressions_mouthStretchR''],
     target = ''C_StretchL_StretchR'',
     mode = Add,
     curve = Some [\<lparr>time = 0, val = 0\<rparr>, \<lparr>time = 1, val = 1\<rparr>]\<rparr>,
    \<lparr>name = ''StretchL_LowerLipBite_L'',
     source = [''CTRL_expressions_mouthStretchL'',
               ''CTRL_expressions_mouthLowerLipBiteL''],
     target = ''C_StretchL_LowerLipBite_L'',
     mode = Add,
     curve = Some [\<lparr>time = 0, val = - 0.003497\<rparr>, \<lparr>time = 1, val = 1\<rparr>]\<rparr>,
    \<lparr>name = ''StretchR_LowerLipBite_R'',
     source = [''CTRL_expressions_mouthStretchR'',
               ''CTRL_expressions_mouthLowerLipBiteR''],
     target = ''C_StretchR_LowerLipBite_R'',
     mode = Add,
     curve = Some [\<lparr>time = 0, val = - 0.003497\<rparr>, \<lparr>time = 1, val = 1\<rparr>]\<rparr>
  ]"

text \<open>\<^verbatim>\<open>// ========== JAW OPEN COMBINATIONS ==========\<close>\<close>

definition MAPPING_JAW_OPEN_COMBINATIONS :: "mappingRule list" where
  "MAPPING_JAW_OPEN_COMBINATIONS = [
    \<lparr>name = ''CornerPullL_JawOpen'',
     source = [''CTRL_expressions_jawOpen'',
               ''CTRL_expressions_mouthCornerPullL''],
     target = ''C_CornerPullL_JawOpen'',
     mode = Add,
     curve = Some [\<lparr>time = 0, val = 0\<rparr>, \<lparr>time = 1, val = 1\<rparr>]\<rparr>,
    \<lparr>name = ''CornerPullR_JawOpen'',
     source = [''CTRL_expressions_jawOpen'',
               ''CTRL_expressions_mouthCornerPullR''],
     target = ''C_CornerPullR_JawOpen'',
     mode = Add,
     curve = Some [\<lparr>time = 0, val = 0\<rparr>, \<lparr>time = 1, val = 1\<rparr>]\<rparr>,
    \<lparr>name = ''CornerPullL_JawOpen_LowerLipDepressL'',
     source = [''CTRL_expressions_mouthCornerPullL'',
               ''CTRL_expressions_jawOpen'',
               ''CTRL_expressions_mouthLowerLipDepressL''],
     target = ''C_CornerPullL_JawOpen_LowerLipDepressL'',
     mode = Add,
     curve = Some [\<lparr>time = 0, val = 0\<rparr>, \<lparr>time = 1, val = 1\<rparr>]\<rparr>,
    \<lparr>name = ''CornerPullR_JawOpen_LowerLipDepressR'',
     source = [''CTRL_expressions_mouthCornerPullR'',
               ''CTRL_expressions_jawOpen'',
               ''CTRL_expressions_mouthLowerLipDepressR''],
     target = ''C_CornerPullR_JawOpen_LowerLipDepressR'',
     mode = Add,
     curve = Some [\<lparr>time = 0, val = 0\<rparr>, \<lparr>time = 1, val = 1\<rparr>]\<rparr>,
    \<lparr>name = ''LipsPurseDL_JawOpen'',
     source = [''CTRL_expressions_mouthLipsPurseDL'',
               ''CTRL_expressions_jawOpen''],
     target = ''C_LipsPurseDL_JawOpen'',
     mode = Add,
     curve = Some [\<lparr>time = 0, val = 0\<rparr>, \<lparr>time = 1, val = 0.5\<rparr>]\<rparr>,
    \<lparr>name = ''LipsPurseDR_JawOpen'',
     source = [''CTRL_expressions_mouthLipsPurseDR'',
               ''CTRL_expressions_jawOpen''],
     target = ''C_LipsPurseDR_JawOpen'',
     mode = Add,
     curve = Some [\<lparr>time = 0, val = 0\<rparr>, \<lparr>time = 1, val = 0.5\<rparr>]\<rparr>,
    \<lparr>name = ''LipsPurseUL_JawOpen'',
     source = [''CTRL_expressions_mouthLipsPurseUL'',
               ''CTRL_expressions_jawOpen''],
     target = ''C_LipsPurseUL_JawOpen'',
     mode = Add,
     curve = Some [\<lparr>time = 0, val = 0\<rparr>, \<lparr>time = 1, val = 0.5\<rparr>]\<rparr>,
    \<lparr>name = ''LipsPurseUR_JawOpen'',
     source = [''CTRL_expressions_mouthLipsPurseUR'',
               ''CTRL_expressions_jawOpen''],
     target = ''C_LipsPurseUR_JawOpen'',
     mode = Add,
     curve = Some [\<lparr>time = 0, val = 0\<rparr>, \<lparr>time = 1, val = 0.5\<rparr>]\<rparr>,
    \<lparr>name = ''StretchL_LowerLipDepressL_JawOpen'',
     source = [''CTRL_expressions_mouthStretchL'',
               ''CTRL_expressions_mouthLowerLipDepressL'',
               ''CTRL_expressions_jawOpen''],
     target = ''C_StretchL_LowerLipDepressL_JawOpen'',
     mode = Add,
     curve = Some [\<lparr>time = 0, val = 0\<rparr>, \<lparr>time = 1, val = 1\<rparr>]\<rparr>,
    \<lparr>name = ''StretchR_LowerLipDepressR_JawOpen'',
     source = [''CTRL_expressions_mouthStretchR'',
               ''CTRL_expressions_mouthLowerLipDepressR'',
               ''CTRL_expressions_jawOpen''],
     target = ''C_StretchR_LowerLipDepressR_JawOpen'',
     mode = Add,
     curve = Some [\<lparr>time = 0, val = 0\<rparr>, \<lparr>time = 1, val = 1\<rparr>]\<rparr>,
    \<lparr>name = ''StretchL_JawOpen'',
     source = [''CTRL_expressions_mouthStretchL'',
               ''CTRL_expressions_jawOpen''],
     target = ''C_StretchL_JawOpen'',
     mode = Add,
     curve = Some [\<lparr>time = 0, val = 0\<rparr>, \<lparr>time = 1, val = 1\<rparr>]\<rparr>,
    \<lparr>name = ''StretchR_JawOpen'',
     source = [''CTRL_expressions_mouthStretchR'',
               ''CTRL_expressions_jawOpen''],
     target = ''C_StretchR_JawOpen'',
     mode = Add,
     curve = Some [\<lparr>time = 0, val = 0\<rparr>, \<lparr>time = 1, val = 1\<rparr>]\<rparr>
  ]"

text \<open>\<^verbatim>\<open>// ========== LIP DEPRESS & RAISE ==========\<close>\<close>

definition MAPPING_LIP_DEPRESS_AND_RAISE :: "mappingRule list" where
  "MAPPING_LIP_DEPRESS_AND_RAISE = [
    \<lparr>name = ''LowerLipDepressL_LowerLipDepressR'',
     source = [''CTRL_expressions_mouthLowerLipDepressL'',
               ''CTRL_expressions_mouthLowerLipDepressR''],
     target = ''C_LowerLipDepressL_LowerLipDepressR'',
     mode = Add,
     curve = Some [\<lparr>time = 0, val = 0\<rparr>, \<lparr>time = 1, val = 1\<rparr>]\<rparr>,
    \<lparr>name = ''UpperLipRaiseL_UpperLipRaiseR'',
     source = [''CTRL_expressions_mouthUpperLipRaiseL'',
               ''CTRL_expressions_mouthUpperLipRaiseR''],
     target = ''C_UpperLipRaiseL_UpperLipRaiseR'',
     mode = Add,
     curve = Some [\<lparr>time = 0, val = 0\<rparr>, \<lparr>time = 1, val = 1\<rparr>]\<rparr>
  ]"

text \<open>\<^verbatim>\<open>// ========== COMPLEX JAW OPEN COMBINATIONS ==========\<close>\<close>

definition MAPPING_COMPLEX_JAW_OPEN_COMBINATIONS :: "mappingRule list" where
  "MAPPING_COMPLEX_JAW_OPEN_COMBINATIONS = [
    \<lparr>name = ''CornerPullL_StretchL_JawOpen'',
     source = [''CTRL_expressions_mouthCornerPullL'',
               ''CTRL_expressions_mouthStretchL'',
               ''CTRL_expressions_jawOpen''],
     target = ''C_CornerPullL_StretchL_JawOpen'',
     mode = Add,
     curve = Some [\<lparr>time = 0, val = 0\<rparr>, \<lparr>time = 1, val = 1\<rparr>]\<rparr>,
    \<lparr>name = ''CornerPullR_StretchR_JawOpen'',
     source = [''CTRL_expressions_mouthCornerPullR'',
               ''CTRL_expressions_mouthStretchR'',
               ''CTRL_expressions_jawOpen''],
     target = ''C_CornerPullR_StretchR_JawOpen'',
     mode = Add,
     curve = Some [\<lparr>time = 0, val = 0\<rparr>, \<lparr>time = 1, val = 1\<rparr>]\<rparr>,
    \<lparr>name = ''CornerPullRL_StretchRL_JawOpen'',
     source = [''CTRL_expressions_mouthCornerPullR'',
               ''CTRL_expressions_mouthStretchR'',
               ''CTRL_expressions_jawOpen'',
               ''CTRL_expressions_mouthStretchL'',
               ''CTRL_expressions_mouthCornerPullL''],
     target = ''C_CornerPullRL_StretchRL_JawOpen'',
     mode = Add,
     curve = Some [\<lparr>time = 0, val = 0\<rparr>, \<lparr>time = 1, val = 1\<rparr>]\<rparr>,
    \<lparr>name = ''CornerPullRL_StretchRL_JawOpen_LowerLipDepressRL'',
     source = [''CTRL_expressions_mouthCornerPullR'',
               ''CTRL_expressions_mouthStretchR'',
               ''CTRL_expressions_jawOpen'',
               ''CTRL_expressions_mouthStretchL'',
               ''CTRL_expressions_mouthCornerPullL'',
               ''CTRL_expressions_mouthLowerLipDepressL'',
               ''CTRL_expressions_mouthLowerLipDepressR''],
     target = ''C_CornerPullRL_StretchRL_JawOpen_LowerLipDepressRL'',
     mode = Add,
     curve = Some [\<lparr>time = 0, val = 0\<rparr>, \<lparr>time = 1, val = 1\<rparr>]\<rparr>
  ]"

text \<open>\<^verbatim>\<open>// ========== LIP BITE & JAW OPEN ==========\<close>\<close>

definition MAPPING_LIP_BITE_AND_JAW_OPEN :: "mappingRule list" where
  "MAPPING_LIP_BITE_AND_JAW_OPEN = [
    \<lparr>name = ''UpperLipBiteL_JawOpen'',
     source = [''CTRL_expressions_mouthUpperLipBiteL'',
               ''CTRL_expressions_jawOpen''],
     target = ''C_UpperLipBiteL_JawOpen'',
     mode = Add,
     curve = Some [\<lparr>time = 0, val = 0\<rparr>, \<lparr>time = 1, val = 1\<rparr>]\<rparr>,
    \<lparr>name = ''UpperLipBiteR_JawOpen'',
     source = [''CTRL_expressions_mouthUpperLipBiteR'',
               ''CTRL_expressions_jawOpen''],
     target = ''C_UpperLipBiteR_JawOpen'',
     mode = Add,
     curve = Some [\<lparr>time = 0, val = 0\<rparr>, \<lparr>time = 1, val = 1\<rparr>]\<rparr>,
    \<lparr>name = ''LowerLipBiteL_JawOpen'',
     source = [''CTRL_expressions_mouthLowerLipBiteL'',
               ''CTRL_expressions_jawOpen''],
     target = ''C_LowerLipBiteL_JawOpen'',
     mode = Add,
     curve = Some [\<lparr>time = 0, val = 0\<rparr>, \<lparr>time = 1, val = 1\<rparr>]\<rparr>,
    \<lparr>name = ''LowerLipBiteR_JawOpen'',
     source = [''CTRL_expressions_mouthLowerLipBiteR'',
               ''CTRL_expressions_jawOpen''],
     target = ''C_LowerLipBiteR_JawOpen'',
     mode = Add,
     curve = Some [\<lparr>time = 0, val = 0\<rparr>, \<lparr>time = 1, val = 1\<rparr>]\<rparr>
  ]"

text \<open>\<^verbatim>\<open>// ========== PRESS & JAW OPEN ==========\<close>\<close>

definition MAPPING_PRESS_AND_JAW_OPEN :: "mappingRule list" where
  "MAPPING_PRESS_AND_JAW_OPEN = [
    \<lparr>name = ''PressUL_JawOpen'',
     source = [''CTRL_expressions_mouthPressUL'',
               ''CTRL_expressions_jawOpen''],
     target = ''C_PressUL_JawOpen'',
     mode = Add,
     curve = Some [\<lparr>time = 0, val = 0\<rparr>, \<lparr>time = 1, val = 0.5\<rparr>]\<rparr>,
    \<lparr>name = ''PressUR_JawOpen'',
     source = [''CTRL_expressions_mouthPressUR'',
               ''CTRL_expressions_jawOpen''],
     target = ''C_PressUR_JawOpen'',
     mode = Add,
     curve = Some [\<lparr>time = 0, val = 0\<rparr>, \<lparr>time = 1, val = 0.5\<rparr>]\<rparr>,
    \<lparr>name = ''PressDL_JawOpen'',
     source = [''CTRL_expressions_mouthPressDL'',
               ''CTRL_expressions_jawOpen''],
     target = ''C_PressDL_JawOpen'',
     mode = Add,
     curve = Some [\<lparr>time = 0, val = 0\<rparr>, \<lparr>time = 1, val = 0.5\<rparr>]\<rparr>,
    \<lparr>name = ''PressDR_JawOpen'',
     source = [''CTRL_expressions_mouthPressDR'',
               ''CTRL_expressions_jawOpen''],
     target = ''C_PressDR_JawOpen'',
     mode = Add,
     curve = Some [\<lparr>time = 0, val = 0\<rparr>, \<lparr>time = 1, val = 0.5\<rparr>]\<rparr>
  ]"

text \<open>\<^verbatim>\<open>// ========== DIMPLE COMBINATIONS ==========\<close>\<close>

definition MAPPING_DIMPLE_COMBINATIONS :: "mappingRule list" where
  "MAPPING_DIMPLE_COMBINATIONS = [
    \<lparr>name = ''DimpleL_UpperLipRaiseL'',
     source = [''CTRL_expressions_mouthDimpleL'',
               ''CTRL_expressions_mouthUpperLipRaiseL''],
     target = ''C_DimpleL_UpperLipRaiseL'',
     mode = Add,
     curve = Some [\<lparr>time = 0, val = - 0.003497\<rparr>, \<lparr>time = 1, val = 1\<rparr>]\<rparr>,
    \<lparr>name = ''DimpleR_UpperLipRaiseR'',
     source = [''CTRL_expressions_mouthDimpleR'',
               ''CTRL_expressions_mouthUpperLipRaiseR''],
     target = ''C_DimpleR_UpperLipRaiseR'',
     mode = Add,
     curve = Some [\<lparr>time = 0, val = - 0.003497\<rparr>, \<lparr>time = 1, val = 1\<rparr>]\<rparr>,
    \<lparr>name = ''DimpleL_LowerLipDepressL'',
     source = [''CTRL_expressions_mouthDimpleL'',
               ''CTRL_expressions_mouthLowerLipDepressL''],
     target = ''C_DimpleL_LowerLipDepressL'',
     mode = Add,
     curve = Some [\<lparr>time = 0, val = 0\<rparr>, \<lparr>time = 1, val = 1\<rparr>]\<rparr>,
    \<lparr>name = ''DimpleR_LowerLipDepressR'',
     source = [''CTRL_expressions_mouthDimpleR'',
               ''CTRL_expressions_mouthLowerLipDepressR''],
     target = ''C_DimpleR_LowerLipDepressR'',
     mode = Add,
     curve = Some [\<lparr>time = 0, val = 0\<rparr>, \<lparr>time = 1, val = 1\<rparr>]\<rparr>,
    \<lparr>name = ''DimpleL_JawOpen'',
     source = [''CTRL_expressions_jawOpen'',
               ''CTRL_expressions_mouthDimpleL''],
     target = ''C_DimpleL_JawOpen'',
     mode = Add,
     curve = Some [\<lparr>time = 0, val = 0\<rparr>, \<lparr>time = 1, val = 1\<rparr>]\<rparr>,
    \<lparr>name = ''DimpleR_JawOpen'',
     source = [''CTRL_expressions_jawOpen'',
               ''CTRL_expressions_mouthDimpleR''],
     target = ''C_DimpleR_JawOpen'',
     mode = Add,
     curve = Some [\<lparr>time = 0, val = 0\<rparr>, \<lparr>time = 1, val = 1\<rparr>]\<rparr>
  ]"

text \<open>\<^verbatim>\<open>// ========== LIMIT MODE MAPPINGS ==========\<close>\<close>

definition MAPPING_LIMIT_MODE_MAPPINGS :: "mappingRule list" where
  "MAPPING_LIMIT_MODE_MAPPINGS = [
    \<lparr>name = ''EyeLidPress_Blink_L'',
     source = [''CTRL_expressions_eyeBlinkL''],
     target = ''CTRL_expressions_eyeLidPressL'',
     mode = Limit,
     curve = Some [\<lparr>time = 0, val = 0\<rparr>, \<lparr>time = 1, val = 1\<rparr>]\<rparr>,
    \<lparr>name = ''EyeLidPress_Blink_R'',
     source = [''CTRL_expressions_eyeBlinkR''],
     target = ''CTRL_expressions_eyeLidPressR'',
     mode = Limit,
     curve = Some [\<lparr>time = 0, val = 0\<rparr>, \<lparr>time = 1, val = 1\<rparr>]\<rparr>,
    \<lparr>name = ''NoseWinkleUpper_L'',
     source = [''CTRL_expressions_noseWrinkleL''],
     target = ''CTRL_expressions_noseWrinkleUpperL'',
     mode = Limit,
     curve = Some [\<lparr>time = 0, val = 0\<rparr>, \<lparr>time = 1, val = 1\<rparr>]\<rparr>,
    \<lparr>name = ''NoseWinkleUpper_R'',
     source = [''CTRL_expressions_noseWrinkleR''],
     target = ''CTRL_expressions_noseWrinkleUpperR'',
     mode = Limit,
     curve = Some [\<lparr>time = 0, val = 0\<rparr>, \<lparr>time = 1, val = 1\<rparr>]\<rparr>,
    \<lparr>name = ''MouthStretchLipClose_Stretch_L'',
     source = [''CTRL_expressions_mouthStretchL''],
     target = ''CTRL_expressions_mouthStretchLipsCloseL'',
     mode = Limit,
     curve = Some [\<lparr>time = 0, val = 0\<rparr>, \<lparr>time = 1, val = 1\<rparr>]\<rparr>,
    \<lparr>name = ''MouthStretchLipClose_Stretch_R'',
     source = [''CTRL_expressions_mouthStretchR''],
     target = ''CTRL_expressions_mouthStretchLipsCloseR'',
     mode = Limit,
     curve = Some [\<lparr>time = 0, val = 0\<rparr>, \<lparr>time = 1, val = 1\<rparr>]\<rparr>,
    \<lparr>name = ''JawOpenExtreme_JawOpen'',
     source = [''CTRL_expressions_jawOpen''],
     target = ''CTRL_expressions_jawOpenExtreme'',
     mode = Limit,
     curve = Some [\<lparr>time = 0, val = 0\<rparr>, \<lparr>time = 1, val = 1\<rparr>]\<rparr>,
    \<lparr>name = ''MouthLipsTogetherUL_JawOpen'',
     source = [''CTRL_expressions_jawOpen''],
     target = ''CTRL_expressions_mouthLipsTogetherUL'',
     mode = Limit,
     curve = Some [\<lparr>time = 0, val = 0\<rparr>, \<lparr>time = 1, val = 1\<rparr>]\<rparr>,
    \<lparr>name = ''MouthLipsTogetherUR_JawOpen'',
     source = [''CTRL_expressions_jawOpen''],
     target = ''CTRL_expressions_mouthLipsTogetherUR'',
     mode = Limit,
     curve = Some [\<lparr>time = 0, val = 0\<rparr>, \<lparr>time = 1, val = 1\<rparr>]\<rparr>,
    \<lparr>name = ''MouthLipsTogetherDL_JawOpen'',
     source = [''CTRL_expressions_jawOpen''],
     target = ''CTRL_expressions_mouthLipsTogetherDL'',
     mode = Limit,
     curve = Some [\<lparr>time = 0, val = 0\<rparr>, \<lparr>time = 1, val = 1\<rparr>]\<rparr>,
    \<lparr>name = ''MouthLipsTogetherDR_JawOpen'',
     source = [''CTRL_expressions_jawOpen''],
     target = ''CTRL_expressions_mouthLipsTogetherDR'',
     mode = Limit,
     curve = Some [\<lparr>time = 0, val = 0\<rparr>, \<lparr>time = 1, val = 1\<rparr>]\<rparr>
  ]"

text \<open>The table is the sections above in the order of the source.\<close>

definition METAHUMAN_TO_CC5_MAPPING :: "mappingRule list" where
  "METAHUMAN_TO_CC5_MAPPING =
     MAPPING_NOSE_WRINKLE_AND_BROW_COMBINATIONS @ MAPPING_EYE_BLINK_COMBINATIONS @
     MAPPING_EYE_WIDEN_COMBINATIONS @ MAPPING_CHEEK_AND_SQUINT_COMBINATIONS @
     MAPPING_CHEEK_BLOW @ MAPPING_CHEEK_RAISE_AND_CORNER_PULL @
     MAPPING_NOSE_WRINKLE_AND_UPPER_LIP @ MAPPING_CORNER_PULL_COMBINATIONS @
     MAPPING_FUNNEL_AND_CORNER_PULL @ MAPPING_LIPS_PURSE_AND_CORNER_PULL @
     MAPPING_LIPS_PURSE_AND_FUNNEL @ MAPPING_FUNNEL_AND_CHIN_RAISE @
     MAPPING_LIPS_PURSE_AND_LIPS_TOWARDS @ MAPPING_LIPS_PURSE_AND_LIPS_TOGETHER @
     MAPPING_FUNNEL_AND_UPPER_LOWER_LIP @ MAPPING_FUNNEL_AND_LIPS_TOWARDS @
     MAPPING_STRETCH_COMBINATIONS @ MAPPING_JAW_OPEN_COMBINATIONS @
     MAPPING_LIP_DEPRESS_AND_RAISE @ MAPPING_COMPLEX_JAW_OPEN_COMBINATIONS @
     MAPPING_LIP_BITE_AND_JAW_OPEN @ MAPPING_PRESS_AND_JAW_OPEN @
     MAPPING_DIMPLE_COMBINATIONS @ MAPPING_LIMIT_MODE_MAPPINGS"

text \<open>
  The input object \<open>metahumanBlendshapes\<close> is a map from channel names to numbers.
  \<^verbatim>\<open>metahumanBlendshapes[sourceKey] || 0\<close>: an absent channel counts as 0.
\<close>

definition sourceValue :: "(string \<rightharpoonup> real) \<Rightarrow> string \<Rightarrow> real" where
  "sourceValue metahumanBlendshapes sourceKey =
     (case metahumanBlendshapes sourceKey of None \<Rightarrow> 0 | Some v \<Rightarrow> v)"

text \<open>
  The value a rule combines from its sources, before the curve. In Limit mode the limit
  is read at \<open>source[0]\<close>, which for an empty source list is the key \<open>undefined\<close>.
\<close>

definition combinedValue :: "(string \<rightharpoonup> real) \<Rightarrow> mappingRule \<Rightarrow> real" where
  "combinedValue metahumanBlendshapes mapping =
     (case mode mapping of
        Add \<Rightarrow>
          foldl (\<lambda>product sourceKey. product * sourceValue metahumanBlendshapes sourceKey)
            1 (source mapping)
      | Limit \<Rightarrow>
          (let limit = sourceValue metahumanBlendshapes
                         (case source mapping of [] \<Rightarrow> ''undefined'' | s0 # _ \<Rightarrow> s0)
           in if length (source mapping) = 1 then limit
              else foldl (\<lambda>product sourceKey.
                            product * min limit (sourceValue metahumanBlendshapes sourceKey))
                     1 (tl (source mapping)))
      | OtherMode \<Rightarrow> 0)"

text \<open>\<^verbatim>\<open>if (curve && curve.length > 0) value = evaluateCurve(curve, value);\<close>\<close>

definition curvedValue :: "(string \<rightharpoonup> real) \<Rightarrow> mappingRule \<Rightarrow> real" where
  "curvedValue metahumanBlendshapes mapping =
     (let v = combinedValue metahumanBlendshapes mapping
      in case curve mapping of
           None \<Rightarrow> v
         | Some [] \<Rightarrow> v
         | Some (k # ks) \<Rightarrow> evaluateCurve (curve mapping) v)"

text \<open>
  The output object \<open>cc5Blendshapes\<close> is an association list in insertion order, as
  \<open>Object.entries\<close> later reads it: \<open>map_of\<close> is the property read and
  \<open>AList.update\<close> the property write (in place for an existing key, appended otherwise).
  The body of the \<open>forEach\<close> over the rules sets the target or multiplies into it.
\<close>

definition applyMapping ::
  "(string \<rightharpoonup> real) \<Rightarrow> (string \<times> real) list \<Rightarrow> mappingRule \<Rightarrow> (string \<times> real) list" where
  "applyMapping metahumanBlendshapes cc5Blendshapes mapping =
     (let v = curvedValue metahumanBlendshapes mapping
      in case map_of cc5Blendshapes (target mapping) of
           Some old \<Rightarrow> AList.update (target mapping) (old * v) cc5Blendshapes
         | None \<Rightarrow> AList.update (target mapping) v cc5Blendshapes)"

definition mappingPass ::
  "mappingRule list \<Rightarrow> (string \<rightharpoonup> real) \<Rightarrow> (string \<times> real) list" where
  "mappingPass rules metahumanBlendshapes = foldl (applyMapping metahumanBlendshapes) [] rules"

text \<open>
  \<^verbatim>\<open>const { teethDownOffset = 0} = options;\<close>: the option is absent (\<open>None\<close>) or a number.
  The rule list is a parameter of the two passes below, so that they can be run on small
  rule lists as well; \<open>convertMetaHumanToCC5\<close> is their instance at the table.
\<close>

record options =
  teethDownOffset :: "real option"

definition teethCorrectives :: "string list" where
  "teethCorrectives = [''C_FunnelDL_LowerLipDepressL'', ''C_FunnelDR_LowerLipDepressR'']"

definition applyTeethOffset ::
  "real \<Rightarrow> (string \<times> real) list \<Rightarrow> string \<Rightarrow> (string \<times> real) list" where
  "applyTeethOffset offset cc5Blendshapes t =
     (case map_of cc5Blendshapes t of
        Some v \<Rightarrow> AList.update t (min 1 (v + offset)) cc5Blendshapes
      | None \<Rightarrow> AList.update t offset cc5Blendshapes)"

definition convertMetaHumanToCC5_with ::
  "mappingRule list \<Rightarrow> (string \<rightharpoonup> real) \<Rightarrow> options \<Rightarrow> (string \<times> real) list" where
  "convertMetaHumanToCC5_with rules metahumanBlendshapes opts =
     (let offset = (case teethDownOffset opts of None \<Rightarrow> 0 | Some v \<Rightarrow> v);
          cc5Blendshapes = mappingPass rules metahumanBlendshapes
      in foldl (applyTeethOffset offset) cc5Blendshapes teethCorrectives)"

definition convertMetaHumanToCC5 ::
  "(string \<rightharpoonup> real) \<Rightarrow> options \<Rightarrow> (string \<times> real) list" where
  "convertMetaHumanToCC5 = convertMetaHumanToCC5_with METAHUMAN_TO_CC5_MAPPING"

section \<open>Playback scheduler (useMetahumanLipsync, the useFrame callback)\<close>

definition TARGET_FPS :: real where
  "TARGET_FPS = 60"

definition FRAME_OFFSET :: real where
  "FRAME_OFFSET = 15"

text \<open>\<open>ANIMATION_CONFIG\<close> of convaiConfig.js, the fields the scheduler reads.\<close>

definition LIPSYNC_LERP_SPEED :: real where
  "LIPSYNC_LERP_SPEED = 0.8"

definition JAW_LERP_SPEED :: real where
  "JAW_LERP_SPEED = 0.8"

definition FADE_OUT_LERP_SPEED :: real where
  "FADE_OUT_LERP_SPEED = 0.2"

definition LIPSYNC_FADE_IN_DURATION :: real where
  "LIPSYNC_FADE_IN_DURATION = 0.3"

record playbackState =
  isPlaying :: bool
  startTime :: real
  currentFrameIndex :: int
  isDraining :: bool
  fadeInWeight :: real

text \<open>
  An element of \<open>queue.getFrames()\<close>: an array of numbers (ARKit), an object with named
  channels (MetaHuman), or anything else (\<open>null\<close>, \<open>undefined\<close>, a number, a string).
\<close>

datatype frame =
    ArrayFrame "real list"
  | ObjectFrame "(string \<times> real) list"
  | NotAFrame

text \<open>
  \<^verbatim>\<open>currentFrame &&
  ((Array.isArray(currentFrame) && currentFrame.length > 0) ||
   (typeof currentFrame === "object" && Object.keys(currentFrame).length > 0))\<close>
  An empty array has no own keys either.
\<close>

definition isValidFrame :: "frame \<Rightarrow> bool" where
  "isValidFrame currentFrame =
     (case currentFrame of
        ArrayFrame xs \<Rightarrow> length xs > 0
      | ObjectFrame kvs \<Rightarrow> length kvs > 0
      | NotAFrame \<Rightarrow> False)"

definition targetFrameIndex :: "real \<Rightarrow> real \<Rightarrow> int" where
  "targetFrameIndex currentTime start =
     (let elapsedTimeMs = currentTime - start;
          elapsedTimeSec = elapsedTimeMs / 1000;
          exactFramePos = elapsedTimeSec * TARGET_FPS + FRAME_OFFSET
      in \<lfloor>exactFramePos\<rfloor>)"

definition frameIndex :: "real \<Rightarrow> real \<Rightarrow> frame list \<Rightarrow> int" where
  "frameIndex currentTime start frames =
     min (targetFrameIndex currentTime start) (int (length frames) - 1)"

text \<open>
  What one tick does beyond the playback state and the queue. Blinking runs first on every
  tick and touches neither; it is left out.
\<close>

datatype tickEffect =
    NoQueue
  | ResetToNeutral real real
  | WaitForFrames
  | StoppedOnEmptyQueue
  | StoppedAtEnd
  | IndexOutOfRange
  | WarnInvalidFrame int
  | ApplyFrame frame real real real

text \<open>
  One call of the \<open>useFrame\<close> callback: the playback state, the queue's frames (\<open>None\<close>
  when the client has no queue) and the world clock in milliseconds go in; the new state,
  the queue after the tick (\<open>queue.reset()\<close> empties it) and the effect come out.
  A tick that applies a frame ends with \<^verbatim>\<open>state.currentFrameIndex = frameIndex;\<close>
\<close>

definition useFrame ::
  "playbackState \<Rightarrow> frame list option \<Rightarrow> real \<Rightarrow> playbackState \<times> frame list option \<times> tickEffect" where
  "useFrame state queue currentTime =
     (case queue of
        None \<Rightarrow> (state, None, NoQueue)
      | Some frames \<Rightarrow>
          if \<not> isPlaying state
          then (state, Some frames, ResetToNeutral FADE_OUT_LERP_SPEED FADE_OUT_LERP_SPEED)
          else if length frames = 0
          then (if isDraining state
                then (state\<lparr>isPlaying := False, isDraining := False, currentFrameIndex := 0\<rparr>,
                      Some [], StoppedOnEmptyQueue)
                else (state, Some frames, WaitForFrames))
          else
            (let elapsedTimeMs = currentTime - startTime state;
                 elapsedTimeSec = elapsedTimeMs / 1000;
                 state1 = state\<lparr>fadeInWeight := min 1 (elapsedTimeSec / LIPSYNC_FADE_IN_DURATION)\<rparr>;
                 i = frameIndex currentTime (startTime state) frames
             in if i \<ge> int (length frames) - 1 \<and> isDraining state1
                then (state1\<lparr>isPlaying := False, isDraining := False, currentFrameIndex := 0\<rparr>,
                      Some [], StoppedAtEnd)
                else if i < 0 \<or> i \<ge> int (length frames)
                then (state1, Some frames, IndexOutOfRange)
                else
                  (let currentFrame = frames ! nat i
                   in if \<not> isValidFrame currentFrame
                      then (state1, Some frames, WarnInvalidFrame i)
                      else (state1\<lparr>currentFrameIndex := i\<rparr>, Some frames,
                            ApplyFrame currentFrame (fadeInWeight state1)
                              LIPSYNC_LERP_SPEED JAW_LERP_SPEED))))"

section \<open>Channel smoother and the MetaHuman-to-CC5 playback path\<close>

text \<open>
  A morph-target slot is one cell \<open>influences[index]\<close> of one mesh: the pair of the mesh
  and the index. \<open>morphCache\<close> maps a channel name to the slots of every mesh that has it.
  The rig state holds the smoothed value per channel (\<open>smoothedMorphValues\<close>), the slots,
  the jaw bone's \<open>rotation.z\<close> (\<open>None\<close> when the rig has no jaw bone) and
  \<open>currentJawRotationRef.current\<close>.
\<close>

type_synonym slot = "nat \<times> nat"

record rig =
  smoothedMorphValues :: "string \<rightharpoonup> real"
  influences :: "slot \<Rightarrow> real"
  jawBone :: "real option"
  currentJawRotationRef :: "real option"

text \<open>
  \<^verbatim>\<open>const targets = morphCache.get(name); if (!targets) return;\<close>
  A channel without an entry in the cache is left alone: no state is stored for it.
  \<^verbatim>\<open>const currentValue = smoothedValues.get(name) || 0;\<close>
\<close>

definition currentValue :: "rig \<Rightarrow> string \<Rightarrow> real" where
  "currentValue r morphName =
     (case smoothedMorphValues r morphName of None \<Rightarrow> 0 | Some v \<Rightarrow> v)"

definition applyMorphValueSmooth ::
  "(string \<rightharpoonup> slot list) \<Rightarrow> rig \<Rightarrow> string \<Rightarrow> real \<Rightarrow> real \<Rightarrow> rig" where
  "applyMorphValueSmooth morphCache r morphName targetValue lerpSpeed =
     (case morphCache morphName of
        None \<Rightarrow> r
      | Some targets \<Rightarrow>
          (let newValue = currentValue r morphName
                          + (targetValue - currentValue r morphName) * lerpSpeed
           in r\<lparr>smoothedMorphValues := (smoothedMorphValues r)(morphName \<mapsto> newValue),
                influences := foldl (\<lambda>inf s. inf(s := newValue)) (influences r) targets\<rparr>))"

text \<open>\<open>JAW_CONFIG\<close> of convaiConfig.js.\<close>

definition CLOSED_ROTATION :: real where
  "CLOSED_ROTATION = 1.5708"

definition MAX_OPEN_ROTATION :: real where
  "MAX_OPEN_ROTATION = 2.0071"

definition ROTATION_RANGE :: real where
  "ROTATION_RANGE = 0.4363"

text \<open>\<open>jawValueToRotation\<close> of useMetahumanLipsync; the first argument is not used.\<close>

definition jawValueToRotation :: "real \<Rightarrow> real \<Rightarrow> real" where
  "jawValueToRotation jawBaseRotationZ jawValue =
     (let clampedValue = max 0 (min 1 jawValue)
      in CLOSED_ROTATION + clampedValue * ROTATION_RANGE)"

text \<open>
  The sibling hook useArkitLipsync eases the clamped value through \<open>JAW_OPEN_CURVE\<close>
  first. Its \<open>evaluateJawCurve\<close> has the body of \<open>evaluateCurve\<close>, statement by statement.
\<close>

definition JAW_OPEN_CURVE :: "keyframe list" where
  "JAW_OPEN_CURVE = [\<lparr>time = 0, val = 0\<rparr>, \<lparr>time = 1, val = 1\<rparr>]"

definition evaluateJawCurve :: "keyframe list option \<Rightarrow> real \<Rightarrow> real" where
  "evaluateJawCurve keys inputValue = evaluateCurve keys inputValue"

definition jawValueToRotation_arkit :: "real \<Rightarrow> real \<Rightarrow> real" where
  "jawValueToRotation_arkit jawBaseRotationZ jawValue =
     (let clampedValue = max 0 (min 1 jawValue);
          easedValue = evaluateJawCurve (Some JAW_OPEN_CURVE) clampedValue
      in CLOSED_ROTATION + easedValue * ROTATION_RANGE)"

definition applyJawBoneSmooth :: "rig \<Rightarrow> real \<Rightarrow> real \<Rightarrow> real \<Rightarrow> rig" where
  "applyJawBoneSmooth r jawBaseRotationZ jawValue lerpSpeed =
     (case jawBone r of
        None \<Rightarrow> r
      | Some rotationZ \<Rightarrow>
          (let targetRotation = jawValueToRotation jawBaseRotationZ jawValue;
               currentRotation = (case currentJawRotationRef r of Some c \<Rightarrow> c | None \<Rightarrow> rotationZ);
               newRotation = currentRotation + (targetRotation - currentRotation) * lerpSpeed
           in r\<lparr>jawBone := Some newRotation, currentJawRotationRef := Some newRotation\<rparr>))"

text \<open>\<open>String.prototype.includes\<close> (the name is a keyword here): the second string occurs in the first.\<close>

fun str_includes :: "string \<Rightarrow> string \<Rightarrow> bool" where
  "str_includes [] sub = (sub = [])"
| "str_includes (c # cs) sub = (prefix sub (c # cs) \<or> str_includes cs sub)"

text \<open>
  The first loop of \<open>applyMetaHumanToCC5\<close>: the frame array is read against the channel
  order \<open>METAHUMAN_ORDER_251\<close> (an import from the SDK, a parameter here); zero values,
  the two blink channels and the eight eye-look channels are skipped.
\<close>

definition skippedControls :: "string list" where
  "skippedControls =
     [''CTRL_expressions_eyeBlinkL'', ''CTRL_expressions_eyeBlinkR'',
      ''CTRL_expressions_eyeLookDownL'', ''CTRL_expressions_eyeLookDownR'',
      ''CTRL_expressions_eyeLookLeftL'', ''CTRL_expressions_eyeLookLeftR'',
      ''CTRL_expressions_eyeLookRightL'', ''CTRL_expressions_eyeLookRightR'',
      ''CTRL_expressions_eyeLookUpL'', ''CTRL_expressions_eyeLookUpR'']"

definition namedFrame :: "string list \<Rightarrow> real list \<Rightarrow> real \<Rightarrow> (string \<rightharpoonup> real)" where
  "namedFrame order currentFrame fadeIn =
     foldl (\<lambda>metahumanBlendshapes (ctrlName, v).
              if v = 0 then metahumanBlendshapes
              else if ctrlName \<in> set skippedControls then metahumanBlendshapes
              else metahumanBlendshapes(ctrlName \<mapsto> v * fadeIn))
       Map.empty (zip order currentFrame)"

text \<open>
  The second loop, \<^verbatim>\<open>for (const [morphName, value] of Object.entries(cc5Values))\<close>.
  Its first test is
  \<^verbatim>\<open>if (morphName.includes("JawOpen") || morphName.includes("Jaw_Open")) continue;\<close>
\<close>

definition isJawOpenMorph :: "string \<Rightarrow> bool" where
  "isJawOpenMorph morphName =
     (str_includes morphName ''JawOpen'' \<or> str_includes morphName ''Jaw_Open'')"

fun applyCC5Values ::
  "(string \<rightharpoonup> slot list) \<Rightarrow> real \<Rightarrow> rig \<Rightarrow> (string \<times> real) list \<Rightarrow> rig" where
  "applyCC5Values morphCache lerpSpeed r [] = r"
| "applyCC5Values morphCache lerpSpeed r ((morphName, v) # entries) =
     (if isJawOpenMorph morphName
      then applyCC5Values morphCache lerpSpeed r entries
      else if v < 0.001 \<and> smoothedMorphValues r morphName = None
      then applyCC5Values morphCache lerpSpeed r entries
      else applyCC5Values morphCache lerpSpeed
             (applyMorphValueSmooth morphCache r morphName v lerpSpeed) entries)"

definition applyMetaHumanToCC5 ::
  "(string \<rightharpoonup> slot list) \<Rightarrow> rig \<Rightarrow> string list \<Rightarrow> real list \<Rightarrow> real \<Rightarrow> real \<Rightarrow> real \<Rightarrow> real \<Rightarrow> rig" where
  "applyMetaHumanToCC5 morphCache r order currentFrame fadeIn jawBaseRotationZ
       lipsyncLerpSpeed jawLerpSpeed =
     (let metahumanBlendshapes = namedFrame order currentFrame fadeIn;
          cc5Values = convertMetaHumanToCC5 metahumanBlendshapes \<lparr>teethDownOffset = None\<rparr>;
          r1 = applyCC5Values morphCache lipsyncLerpSpeed r cc5Values;
          rawJawValue = min (sourceValue metahumanBlendshapes ''CTRL_expressions_jawOpen'') 0.7;
          jawValue = (if rawJawValue < 0.3 then rawJawValue else rawJawValue - 0.1)
      in applyJawBoneSmooth r1 jawBaseRotationZ jawValue jawLerpSpeed)"

section \<open>Lemmas\<close>

lemmas MAPPING_defs =
  MAPPING_NOSE_WRINKLE_AND_BROW_COMBINATIONS_def MAPPING_EYE_BLINK_COMBINATIONS_def
  MAPPING_EYE_WIDEN_COMBINATIONS_def MAPPING_CHEEK_AND_SQUINT_COMBINATIONS_def
  MAPPING_CHEEK_BLOW_def MAPPING_CHEEK_RAISE_AND_CORNER_PULL_def
  MAPPING_NOSE_WRINKLE_AND_UPPER_LIP_def MAPPING_CORNER_PULL_COMBINATIONS_def
  MAPPING_FUNNEL_AND_CORNER_PULL_def MAPPING_LIPS_PURSE_AND_CORNER_PULL_def
  MAPPING_LIPS_PURSE_AND_FUNNEL_def MAPPING_FUNNEL_AND_CHIN_RAISE_def
  MAPPING_LIPS_PURSE_AND_LIPS_TOWARDS_def MAPPING_LIPS_PURSE_AND_LIPS_TOGETHER_def
  MAPPING_FUNNEL_AND_UPPER_LOWER_LIP_def MAPPING_FUNNEL_AND_LIPS_TOWARDS_def
  MAPPING_STRETCH_COMBINATIONS_def MAPPING_JAW_OPEN_COMBINATIONS_def
  MAPPING_LIP_DEPRESS_AND_RAISE_def MAPPING_COMPLEX_JAW_OPEN_COMBINATIONS_def
  MAPPING_LIP_BITE_AND_JAW_OPEN_def MAPPING_PRESS_AND_JAW_OPEN_def
  MAPPING_DIMPLE_COMBINATIONS_def MAPPING_LIMIT_MODE_MAPPINGS_def

subsection \<open>Curve evaluator\<close>

lemma findBracket_Some:
  "findBracket ks x = Some (a, b) \<Longrightarrow>
     \<exists>i. Suc i < length ks \<and> a = ks ! i \<and> b = ks ! Suc i
        \<and> time (ks ! i) \<le> x \<and> x \<le> time (ks ! Suc i)
        \<and> (\<forall>j<i. \<not> (time (ks ! j) \<le> x \<and> x \<le> time (ks ! Suc j)))"
proof (induction ks x rule: findBracket.induct)
  case (1 k k' ks x)
  show ?case
  proof (cases "x \<ge> time k \<and> x \<le> time k'")
    case True
    with 1 have "a = k" "b = k'" by simp_all
    with True show ?thesis by (intro exI[of _ 0]) simp
  next
    case False
    with 1 obtain i where i: "Suc i < length (k' # ks)" "a = (k' # ks) ! i" "b = (k' # ks) ! Suc i"
      "time ((k' # ks) ! i) \<le> x" "x \<le> time ((k' # ks) ! Suc i)"
      "\<forall>j<i. \<not> (time ((k' # ks) ! j) \<le> x \<and> x \<le> time ((k' # ks) ! Suc j))"
      by auto
    have "\<forall>j<Suc i. \<not> (time ((k # k' # ks) ! j) \<le> x \<and> x \<le> time ((k # k' # ks) ! Suc j))"
    proof (intro allI impI)
      fix j assume "j < Suc i"
      show "\<not> (time ((k # k' # ks) ! j) \<le> x \<and> x \<le> time ((k # k' # ks) ! Suc j))"
      proof (cases j)
        case 0
        with False show ?thesis by simp
      next
        case (Suc j')
        with \<open>j < Suc i\<close> i(6) show ?thesis by simp
      qed
    qed
    with i show ?thesis by (intro exI[of _ "Suc i"]) simp
  qed
qed simp_all

lemma findBracket_found:
  "ks \<noteq> [] \<Longrightarrow> time (hd ks) < x \<Longrightarrow> x < time (last ks) \<Longrightarrow> findBracket ks x \<noteq> None"
proof (induction ks x rule: findBracket.induct)
  case (1 k k' ks x)
  show ?case
  proof (cases "x \<ge> time k \<and> x \<le> time k'")
    case True
    then show ?thesis by simp
  next
    case False
    with 1(3) have lt: "time k' < x" by simp
    from 1(4) have "x < time (last (k' # ks))" by simp
    with 1(1) False lt show ?thesis by simp
  qed
qed simp_all

text \<open>
  Claim C2, as the code has it. \<open>evaluateCurve\<close> clamps the input to \<open>[0, 1]\<close>, not to the
  range of the keys. For every non-empty key list, with \<open>x'\<close> the clamped input: the
  result is the first key's value when \<open>x'\<close> is at or before the first key's time; else
  the last key's value when \<open>x'\<close> is at or after the last key's time; else the linear
  interpolation on the first adjacent pair whose times enclose \<open>x'\<close> (the first value of
  the pair when the two times are equal). When the key times lie in \<open>[0, 1]\<close> and the
  first time is below the last, the same holds with the input \<open>x\<close> itself at both ends.
  Undefined or empty keys return the input unchanged.
\<close>

theorem evaluateCurve_clamps_to_unit_interval:
  assumes "keys \<noteq> []"
  shows "let x' = max 0 (min 1 x);
             firstKey = hd keys; lastKey = last keys;
             y = evaluateCurve (Some keys) x
         in (x' \<le> time firstKey \<longrightarrow> y = val firstKey)
          \<and> (time firstKey < x' \<and> time lastKey \<le> x' \<longrightarrow> y = val lastKey)
          \<and> (time firstKey < x' \<and> x' < time lastKey \<longrightarrow>
               (\<exists>i. Suc i < length keys
                  \<and> time (keys ! i) \<le> x' \<and> x' \<le> time (keys ! Suc i)
                  \<and> (\<forall>j<i. \<not> (time (keys ! j) \<le> x' \<and> x' \<le> time (keys ! Suc j)))
                  \<and> y = (if time (keys ! Suc i) = time (keys ! i) then val (keys ! i)
                           else val (keys ! i) + (val (keys ! Suc i) - val (keys ! i))
                                * ((x' - time (keys ! i)) / (time (keys ! Suc i) - time (keys ! i))))))
          \<and> (0 \<le> time firstKey \<and> time lastKey \<le> 1 \<and> time firstKey < time lastKey \<longrightarrow>
               (x \<le> time firstKey \<longrightarrow> y = val firstKey)
             \<and> (x \<ge> time lastKey \<longrightarrow> y = val lastKey)
             \<and> (time firstKey < x \<and> x < time lastKey \<longrightarrow> x' = x))
          \<and> evaluateCurve None x = x \<and> evaluateCurve (Some []) x = x"
proof -
  define x' where "x' = max 0 (min 1 x)"
  obtain k0 ks where keys: "keys = k0 # ks" using assms by (cases keys) auto
  let ?y = "evaluateCurve (Some keys) x"
  have ev: "?y = (if x' \<le> time (hd keys) then val (hd keys)
                  else if x' \<ge> time (last keys) then val (last keys)
                  else (case (case findBracket keys x' of Some p \<Rightarrow> p
                              | None \<Rightarrow> (hd keys, last keys)) of
                          (a, b) \<Rightarrow>
                            if time b - time a = 0 then val a
                            else val a + (val b - val a) * ((x' - time a) / (time b - time a))))"
    unfolding evaluateCurve_def keys x'_def by (simp add: Let_def split: option.split)
  have A: "x' \<le> time (hd keys) \<Longrightarrow> ?y = val (hd keys)"
    by (simp add: ev)
  have B: "time (hd keys) < x' \<Longrightarrow> time (last keys) \<le> x' \<Longrightarrow> ?y = val (last keys)"
    by (simp add: ev)
  have C: "\<exists>i. Suc i < length keys
                  \<and> time (keys ! i) \<le> x' \<and> x' \<le> time (keys ! Suc i)
                  \<and> (\<forall>j<i. \<not> (time (keys ! j) \<le> x' \<and> x' \<le> time (keys ! Suc j)))
                  \<and> ?y = (if time (keys ! Suc i) = time (keys ! i) then val (keys ! i)
                           else val (keys ! i) + (val (keys ! Suc i) - val (keys ! i))
                                * ((x' - time (keys ! i)) / (time (keys ! Suc i) - time (keys ! i))))"
    if lo: "time (hd keys) < x'" and hi: "x' < time (last keys)"
  proof -
    from findBracket_found[OF assms lo hi] obtain a b where ab: "findBracket keys x' = Some (a, b)"
      by auto
    from findBracket_Some[OF ab] obtain i where i: "Suc i < length keys" "a = keys ! i"
      "b = keys ! Suc i" "time (keys ! i) \<le> x'" "x' \<le> time (keys ! Suc i)"
      "\<forall>j<i. \<not> (time (keys ! j) \<le> x' \<and> x' \<le> time (keys ! Suc j))"
      by blast
    have "?y = (if time b - time a = 0 then val a
                else val a + (val b - val a) * ((x' - time a) / (time b - time a)))"
      using lo hi ab by (simp add: ev)
    with i show ?thesis by (intro exI[of _ i]) simp
  qed
  have D: "x \<le> time (hd keys) \<Longrightarrow> ?y = val (hd keys)" if "0 \<le> time (hd keys)"
    using that A by (simp add: x'_def)
  have E: "x \<ge> time (last keys) \<Longrightarrow> ?y = val (last keys)"
    if "time (last keys) \<le> 1" "time (hd keys) < time (last keys)"
    using that B by (simp add: x'_def)
  have F: "time (hd keys) < x \<Longrightarrow> x < time (last keys) \<Longrightarrow> x' = x"
    if "0 \<le> time (hd keys)" "time (last keys) \<le> 1"
    using that by (simp add: x'_def)
  have G: "evaluateCurve None x = x \<and> evaluateCurve (Some []) x = x"
    by (simp add: evaluateCurve_def)
  show ?thesis
    unfolding Let_def x'_def[symmetric] using A B C D E F G by blast
qed

theorem evaluateCurve_clamps_to_unit_interval_witness:
  "evaluateCurve (Some [\<lparr>time = 0, val = 0\<rparr>, \<lparr>time = 0.5, val = 1\<rparr>, \<lparr>time = 1, val = 0\<rparr>]) 2 = 0
   \<and> evaluateCurve (Some [\<lparr>time = 0, val = 0\<rparr>, \<lparr>time = 0.5, val = 1\<rparr>, \<lparr>time = 1, val = 0\<rparr>]) (- 1) = 0"
  using evaluateCurve_clamps_to_unit_interval
          [of "[\<lparr>time = 0, val = 0\<rparr>, \<lparr>time = 0.5, val = 1\<rparr>, \<lparr>time = 1, val = 0\<rparr>]" 2]
        evaluateCurve_clamps_to_unit_interval
          [of "[\<lparr>time = 0, val = 0\<rparr>, \<lparr>time = 0.5, val = 1\<rparr>, \<lparr>time = 1, val = 0\<rparr>]" "- 1"]
  by (simp add: Let_def)

text \<open>
  The claim as stated fails for keys outside \<open>[0, 1]\<close>: with the sorted keys
  \<open>(2, 5), (3, 7)\<close> the input 3 is at the last key's time, and the result is the first
  key's value 5, since the input is clamped to 1 first.
\<close>

theorem evaluateCurve_key_range_counterexample:
  "sorted (map time [\<lparr>time = 2, val = 5\<rparr>, \<lparr>time = 3, val = 7\<rparr>])
   \<and> (3::real) \<ge> time (last [\<lparr>time = 2, val = 5\<rparr>, \<lparr>time = 3, val = 7\<rparr>])
   \<and> evaluateCurve (Some [\<lparr>time = 2, val = 5\<rparr>, \<lparr>time = 3, val = 7\<rparr>]) 3 = 5
   \<and> val (last [\<lparr>time = 2, val = 5\<rparr>, \<lparr>time = 3, val = 7\<rparr>]) = 7"
  by (simp add: evaluateCurve_def)

subsection \<open>Mapping engine\<close>

lemma curvedValue_eq:
  "curvedValue mh r = evaluateCurve (curve r) (combinedValue mh r)"
  by (simp add: curvedValue_def evaluateCurve_def Let_def split: option.split list.split)

lemma foldl_mult_prod_list:
  "foldl (\<lambda>product k. product * f k) (a::real) ks = a * prod_list (map f ks)"
  by (induction ks arbitrary: a) (simp_all add: mult.assoc)

lemma combinedValue_Add:
  "mode r = Add \<Longrightarrow> combinedValue mh r = prod_list (map (sourceValue mh) (source r))"
  by (simp add: combinedValue_def foldl_mult_prod_list)

lemma combinedValue_Limit:
  "mode r = Limit \<Longrightarrow> source r = s0 # rest \<Longrightarrow>
     combinedValue mh r =
       (if rest = [] then sourceValue mh s0
        else prod_list (map (\<lambda>k. min (sourceValue mh s0) (sourceValue mh k)) rest))"
  by (simp add: combinedValue_def foldl_mult_prod_list Let_def)

lemma map_of_applyMapping:
  "map_of (applyMapping mh cc5 r) t =
     (if t = target r
      then Some (case map_of cc5 t of Some old \<Rightarrow> old * curvedValue mh r | None \<Rightarrow> curvedValue mh r)
      else map_of cc5 t)"
  by (simp add: applyMapping_def Let_def update_conv' split: option.split)

lemma map_of_foldl_applyMapping:
  "map_of (foldl (applyMapping mh) acc rules) t =
     (case map_of acc t of
        Some a \<Rightarrow> Some (a * prod_list (map (curvedValue mh) (filter (\<lambda>r. target r = t) rules)))
      | None \<Rightarrow>
          (if filter (\<lambda>r. target r = t) rules = [] then None
           else Some (prod_list (map (curvedValue mh) (filter (\<lambda>r. target r = t) rules)))))"
proof (induction rules arbitrary: acc)
  case Nil
  show ?case by (simp split: option.split)
next
  case (Cons r rules)
  show ?case
    by (simp add: Cons.IH map_of_applyMapping mult.assoc split: option.split)
qed

lemma map_of_mappingPass:
  "map_of (mappingPass rules mh) t =
     (if filter (\<lambda>r. target r = t) rules = [] then None
      else Some (prod_list (map (curvedValue mh) (filter (\<lambda>r. target r = t) rules))))"
  by (simp add: mappingPass_def map_of_foldl_applyMapping)

subsection \<open>Facts read off the mapping table\<close>

text \<open>The counts \<open>getMappingStats\<close> reports: 128 rules, 117 in Add and 11 in Limit mode.\<close>

lemma table_size:
  "length METAHUMAN_TO_CC5_MAPPING = 128
   \<and> length (filter (\<lambda>r. mode r = Add) METAHUMAN_TO_CC5_MAPPING) = 117
   \<and> length (filter (\<lambda>r. mode r = Limit) METAHUMAN_TO_CC5_MAPPING) = 11"
  unfolding METAHUMAN_TO_CC5_MAPPING_def filter_append length_append
  by (simp add: MAPPING_defs)

lemma rules_for_CornerPullL_CornerPullR:
  "filter (\<lambda>r. target r = ''C_CornerPullL_CornerPullR'') METAHUMAN_TO_CC5_MAPPING =
     [\<lparr>name = ''CornerPullL_CornerPullR'',
       source = [''CTRL_expressions_mouthCornerPullL'', ''CTRL_expressions_mouthCornerPullR''],
       target = ''C_CornerPullL_CornerPullR'',
       mode = Add,
       curve = Some [\<lparr>time = 0, val = 0\<rparr>, \<lparr>time = 1, val = 1\<rparr>]\<rparr>]"
  unfolding METAHUMAN_TO_CC5_MAPPING_def filter_append
  by (simp add: MAPPING_defs)

lemma rules_for_FunnelDL_LowerLipDepressL:
  "filter (\<lambda>r. target r = ''C_FunnelDL_LowerLipDepressL'') METAHUMAN_TO_CC5_MAPPING =
     [\<lparr>name = ''FunnelDL_LowerLipDepressL'',
       source = [''CTRL_expressions_mouthFunnelDL'', ''CTRL_expressions_mouthLowerLipDepressL''],
       target = ''C_FunnelDL_LowerLipDepressL'',
       mode = Add,
       curve = Some [\<lparr>time = 0, val = 0\<rparr>, \<lparr>time = 1, val = 0.5\<rparr>]\<rparr>]"
  unfolding METAHUMAN_TO_CC5_MAPPING_def filter_append
  by (simp add: MAPPING_defs)

lemma rules_for_FunnelDR_LowerLipDepressR:
  "filter (\<lambda>r. target r = ''C_FunnelDR_LowerLipDepressR'') METAHUMAN_TO_CC5_MAPPING =
     [\<lparr>name = ''FunnelDR_LowerLipDepressR'',
       source = [''CTRL_expressions_mouthFunnelDR'', ''CTRL_expressions_mouthLowerLipDepressR''],
       target = ''C_FunnelDR_LowerLipDepressR'',
       mode = Add,
       curve = Some [\<lparr>time = 0, val = 0\<rparr>, \<lparr>time = 1, val = 0.5\<rparr>]\<rparr>]"
  unfolding METAHUMAN_TO_CC5_MAPPING_def filter_append
  by (simp add: MAPPING_defs)

lemma rules_for_CornerPullL_UpperLipRaiseL:
  "filter (\<lambda>r. target r = ''C_CornerPullL_UpperLipRaiseL'') METAHUMAN_TO_CC5_MAPPING =
     [\<lparr>name = ''CornerPullL_UpperLipRaiseL'',
       source = [''CTRL_expressions_mouthCornerPullL'', ''CTRL_expressions_mouthUpperLipRaiseL''],
       target = ''C_CornerPullL_UpperLipRaiseL'',
       mode = Add,
       curve = Some [\<lparr>time = 0, val = - 0.003497\<rparr>, \<lparr>time = 1, val = 1\<rparr>]\<rparr>]"
  unfolding METAHUMAN_TO_CC5_MAPPING_def filter_append
  by (simp add: MAPPING_defs)

lemma table_curves:
  "\<forall>r\<in>set METAHUMAN_TO_CC5_MAPPING.
     (case curve r of
        None \<Rightarrow> False
      | Some ks \<Rightarrow>
          ks \<noteq> [] \<and> list_all (\<lambda>k. - 0.003497 \<le> val k \<and> val k \<le> 1) ks
          \<and> (list_all (\<lambda>k. 0 \<le> val k) ks
              \<or> target r \<in> set [''C_CornerPullL_UpperLipRaiseL'', ''C_CornerPullR_UpperLipRaiseR'',
                                 ''C_StretchL_LowerLipBite_L'', ''C_StretchR_LowerLipBite_R'',
                                 ''C_DimpleL_UpperLipRaiseL'', ''C_DimpleR_UpperLipRaiseR'']))"
  unfolding METAHUMAN_TO_CC5_MAPPING_def set_append ball_Un
  by (simp add: MAPPING_defs)

lemma rules_for_BlinkL:
  "filter (\<lambda>r. target r = ''C_BlinkL'') METAHUMAN_TO_CC5_MAPPING =
     [\<lparr>name = ''BlinkL'',
       source = [''CTRL_expressions_eyeBlinkL''],
       target = ''C_BlinkL'',
       mode = Add,
       curve = Some [\<lparr>time = 0, val = 0\<rparr>, \<lparr>time = 0.5, val = 1\<rparr>, \<lparr>time = 1, val = 0\<rparr>]\<rparr>]"
  unfolding METAHUMAN_TO_CC5_MAPPING_def filter_append
  by (simp add: MAPPING_defs)

lemma rules_for_eyeLidPressL:
  "filter (\<lambda>r. target r = ''CTRL_expressions_eyeLidPressL'') METAHUMAN_TO_CC5_MAPPING =
     [\<lparr>name = ''EyeLidPress_Blink_L'',
       source = [''CTRL_expressions_eyeBlinkL''],
       target = ''CTRL_expressions_eyeLidPressL'',
       mode = Limit,
       curve = Some [\<lparr>time = 0, val = 0\<rparr>, \<lparr>time = 1, val = 1\<rparr>]\<rparr>]"
  unfolding METAHUMAN_TO_CC5_MAPPING_def filter_append
  by (simp add: MAPPING_defs)

lemma rules_for_LipsPurseUL_JawOpen:
  "filter (\<lambda>r. target r = ''C_LipsPurseUL_JawOpen'') METAHUMAN_TO_CC5_MAPPING =
     [\<lparr>name = ''LipsPurseUL_JawOpen'',
       source = [''CTRL_expressions_mouthLipsPurseUL'', ''CTRL_expressions_jawOpen''],
       target = ''C_LipsPurseUL_JawOpen'',
       mode = Add,
       curve = Some [\<lparr>time = 0, val = 0\<rparr>, \<lparr>time = 1, val = 0.5\<rparr>]\<rparr>]"
  unfolding METAHUMAN_TO_CC5_MAPPING_def filter_append
  by (simp add: MAPPING_defs)

subsection \<open>Corrective combination\<close>

lemma map_of_applyTeethOffset:
  "map_of (applyTeethOffset off cc5 t') t =
     (if t = t' then Some (case map_of cc5 t of Some v \<Rightarrow> min 1 (v + off) | None \<Rightarrow> off)
      else map_of cc5 t)"
  by (simp add: applyTeethOffset_def update_conv' split: option.split)

lemma map_of_convertMetaHumanToCC5_with:
  "map_of (convertMetaHumanToCC5_with rules mh opts) t =
     (if t \<in> set teethCorrectives
      then Some (case map_of (mappingPass rules mh) t of
                   Some v \<Rightarrow> min 1 (v + (case teethDownOffset opts of None \<Rightarrow> 0 | Some v \<Rightarrow> v))
                 | None \<Rightarrow> (case teethDownOffset opts of None \<Rightarrow> 0 | Some v \<Rightarrow> v))
      else map_of (mappingPass rules mh) t)"
  by (simp add: convertMetaHumanToCC5_with_def teethCorrectives_def Let_def
        map_of_applyTeethOffset)

lemma identity_curve:
  "evaluateCurve (Some [\<lparr>time = 0, val = 0\<rparr>, \<lparr>time = 1, val = 1\<rparr>]) x = max 0 (min 1 x)"
  by (simp add: evaluateCurve_def Let_def)

lemma linear_curve:
  "evaluateCurve (Some [\<lparr>time = 0, val = 0\<rparr>, \<lparr>time = 1, val = c\<rparr>]) x = c * max 0 (min 1 x)"
  by (simp add: evaluateCurve_def Let_def)

lemma map_of_mappingPass_member:
  assumes "r \<in> set rules"
  shows "map_of (mappingPass rules mh) (target r) =
           Some (prod_list (map (curvedValue mh) (filter (\<lambda>r'. target r' = target r) rules)))"
proof -
  from assms have "filter (\<lambda>r'. target r' = target r) rules \<noteq> []"
    by (auto simp: filter_empty_conv)
  then show ?thesis by (simp add: map_of_mappingPass)
qed

lemma map_of_convert_member:
  assumes "r \<in> set METAHUMAN_TO_CC5_MAPPING" "target r \<notin> set teethCorrectives"
  shows "map_of (convertMetaHumanToCC5 mh opts) (target r) =
           Some (prod_list (map (curvedValue mh)
                   (filter (\<lambda>r'. target r' = target r) METAHUMAN_TO_CC5_MAPPING)))"
  using assms map_of_mappingPass_member[of r METAHUMAN_TO_CC5_MAPPING mh]
  by (simp add: convertMetaHumanToCC5_def map_of_convertMetaHumanToCC5_with)

lemma map_of_mappingPass_snoc:
  "map_of (mappingPass (rules @ [r]) mh) (target r) =
     Some (case map_of (mappingPass rules mh) (target r) of
             Some old \<Rightarrow> old * curvedValue mh r
           | None \<Rightarrow> curvedValue mh r)"
  by (simp add: mappingPass_def map_of_applyMapping)

text \<open>
  Claim C1. An absent source channel counts as 0. An Add-mode rule contributes its curve
  evaluated at the product of its source values: a curve from \<open>(0, 0)\<close> to \<open>(1, c)\<close>
  scales the clamped product by \<open>c\<close>, and the blink curve turns a single source of 0.5
  into 1. After the mapping pass the value of a target is the product of the
  contributions of all rules with that target, in the table of the source as in any rule
  list, and the teeth offset leaves every other target as it is: the converter gives
  \<open>C_BlinkL = 1\<close> for \<open>eyeBlinkL = 0.5\<close>, and \<open>C_LipsPurseUL_JawOpen = 0.25\<close> for
  its sources at 1 and 0.5 (the product 0.5 through the curve to 0.5). Two rules with one target and the
  results \<open>a\<close> and \<open>b\<close> give \<open>a * b\<close>; a two-source Add rule with the identity curve and
  the sources 0.7 and 0.7 gives 0.49.
\<close>

theorem add_rules_multiply_into_target:
  "(mh k = None \<longrightarrow> sourceValue mh k = 0)
   \<and> (mode r = Add \<longrightarrow>
        curvedValue mh r = evaluateCurve (curve r) (prod_list (map (sourceValue mh) (source r))))
   \<and> (r \<in> set rules \<longrightarrow>
        map_of (mappingPass rules mh) (target r) =
          Some (prod_list (map (curvedValue mh) (filter (\<lambda>r'. target r' = target r) rules))))
   \<and> (r \<in> set METAHUMAN_TO_CC5_MAPPING \<and> target r \<notin> set teethCorrectives \<longrightarrow>
        map_of (convertMetaHumanToCC5 mh opts) (target r) =
          Some (prod_list (map (curvedValue mh)
                  (filter (\<lambda>r'. target r' = target r) METAHUMAN_TO_CC5_MAPPING))))
   \<and> (target r1 = target r2 \<longrightarrow>
        map_of (mappingPass [r1, r2] mh) (target r1) = Some (curvedValue mh r1 * curvedValue mh r2))
   \<and> (mode r = Add \<and> source r = [a, b]
        \<and> curve r = Some [\<lparr>time = 0, val = 0\<rparr>, \<lparr>time = 1, val = 1\<rparr>]
        \<and> mh a = Some 0.7 \<and> mh b = Some 0.7 \<longrightarrow>
        curvedValue mh r = 0.49)
   \<and> (mode r = Add \<and> curve r = Some [\<lparr>time = 0, val = 0\<rparr>, \<lparr>time = 1, val = c\<rparr>] \<longrightarrow>
        curvedValue mh r = c * max 0 (min 1 (prod_list (map (sourceValue mh) (source r)))))
   \<and> (mode r = Add \<and> source r = [a]
        \<and> curve r = Some [\<lparr>time = 0, val = 0\<rparr>, \<lparr>time = 0.5, val = 1\<rparr>, \<lparr>time = 1, val = 0\<rparr>]
        \<and> mh a = Some 0.5 \<longrightarrow>
        curvedValue mh r = 1)
   \<and> map_of (convertMetaHumanToCC5 [''CTRL_expressions_eyeBlinkL'' \<mapsto> 0.5] opts)
        ''C_BlinkL'' = Some 1
   \<and> map_of (convertMetaHumanToCC5
                [''CTRL_expressions_mouthLipsPurseUL'' \<mapsto> 1, ''CTRL_expressions_jawOpen'' \<mapsto> 0.5]
                opts)
        ''C_LipsPurseUL_JawOpen'' = Some 0.25"
proof -
  have A: "curvedValue mh r = evaluateCurve (curve r) (prod_list (map (sourceValue mh) (source r)))"
    if "mode r = Add"
    using that by (simp add: curvedValue_eq combinedValue_Add)
  have B: "map_of (mappingPass rules mh) (target r) =
             Some (prod_list (map (curvedValue mh) (filter (\<lambda>r'. target r' = target r) rules)))"
    if "r \<in> set rules"
    using that by (rule map_of_mappingPass_member)
  have C: "map_of (convertMetaHumanToCC5 mh opts) (target r) =
             Some (prod_list (map (curvedValue mh)
                     (filter (\<lambda>r'. target r' = target r) METAHUMAN_TO_CC5_MAPPING)))"
    if "r \<in> set METAHUMAN_TO_CC5_MAPPING" "target r \<notin> set teethCorrectives"
    using that by (rule map_of_convert_member)
  have D: "map_of (mappingPass [r1, r2] mh) (target r1) = Some (curvedValue mh r1 * curvedValue mh r2)"
    if "target r1 = target r2"
    using that by (simp add: map_of_mappingPass)
  have E: "curvedValue mh r = 0.49"
    if "mode r = Add" "source r = [a, b]"
       "curve r = Some [\<lparr>time = 0, val = 0\<rparr>, \<lparr>time = 1, val = 1\<rparr>]"
       "mh a = Some 0.7" "mh b = Some 0.7"
    using that by (simp add: A identity_curve sourceValue_def)
  have F: "curvedValue mh r = c * max 0 (min 1 (prod_list (map (sourceValue mh) (source r))))"
    if "mode r = Add" "curve r = Some [\<lparr>time = 0, val = 0\<rparr>, \<lparr>time = 1, val = c\<rparr>]"
    using that by (simp add: A linear_curve)
  have G: "curvedValue mh r = 1"
    if "mode r = Add" "source r = [a]"
       "curve r = Some [\<lparr>time = 0, val = 0\<rparr>, \<lparr>time = 0.5, val = 1\<rparr>, \<lparr>time = 1, val = 0\<rparr>]"
       "mh a = Some 0.5"
    using that by (simp add: A evaluateCurve_def sourceValue_def)
  have H: "map_of (convertMetaHumanToCC5 [''CTRL_expressions_eyeBlinkL'' \<mapsto> 0.5] opts)
             ''C_BlinkL'' = Some 1"
    by (simp add: convertMetaHumanToCC5_def map_of_convertMetaHumanToCC5_with
          map_of_mappingPass rules_for_BlinkL teethCorrectives_def
          curvedValue_eq combinedValue_Add sourceValue_def evaluateCurve_def)
  have I: "map_of (convertMetaHumanToCC5
                     [''CTRL_expressions_mouthLipsPurseUL'' \<mapsto> 1,
                      ''CTRL_expressions_jawOpen'' \<mapsto> 0.5] opts)
             ''C_LipsPurseUL_JawOpen'' = Some 0.25"
    by (simp add: convertMetaHumanToCC5_def map_of_convertMetaHumanToCC5_with
          map_of_mappingPass rules_for_LipsPurseUL_JawOpen teethCorrectives_def
          curvedValue_eq combinedValue_Add sourceValue_def linear_curve)
  have S: "mh k = None \<longrightarrow> sourceValue mh k = 0"
    by (simp add: sourceValue_def)
  show ?thesis
    using S A B C D E F G H I by blast
qed

theorem add_rules_multiply_into_target_witness:
  "map_of (convertMetaHumanToCC5
             [''CTRL_expressions_mouthCornerPullL'' \<mapsto> 0.7,
              ''CTRL_expressions_mouthCornerPullR'' \<mapsto> 0.7]
             \<lparr>teethDownOffset = None\<rparr>)
     ''C_CornerPullL_CornerPullR'' = Some 0.49
   \<and> map_of (mappingPass
               [\<lparr>name = ''A'', source = [''a''], target = ''X'', mode = Add, curve = None\<rparr>,
                \<lparr>name = ''B'', source = [''b''], target = ''X'', mode = Add, curve = None\<rparr>]
               [''a'' \<mapsto> 0.5, ''b'' \<mapsto> 0.25])
       ''X'' = Some 0.125
   \<and> curvedValue [''CTRL_expressions_eyeBlinkL'' \<mapsto> 0.5]
       \<lparr>name = ''BlinkL'', source = [''CTRL_expressions_eyeBlinkL''], target = ''C_BlinkL'',
        mode = Add,
        curve = Some [\<lparr>time = 0, val = 0\<rparr>, \<lparr>time = 0.5, val = 1\<rparr>, \<lparr>time = 1, val = 0\<rparr>]\<rparr>
       = 1
   \<and> map_of (convertMetaHumanToCC5 [''CTRL_expressions_eyeBlinkL'' \<mapsto> 0.5]
                \<lparr>teethDownOffset = None\<rparr>)
       ''C_BlinkL'' = Some 1"
proof -
  let ?R = "\<lparr>name = ''CornerPullL_CornerPullR'',
             source = [''CTRL_expressions_mouthCornerPullL'', ''CTRL_expressions_mouthCornerPullR''],
             target = ''C_CornerPullL_CornerPullR'',
             mode = Add,
             curve = Some [\<lparr>time = 0, val = 0\<rparr>, \<lparr>time = 1, val = 1\<rparr>]\<rparr>"
  let ?mh = "[''CTRL_expressions_mouthCornerPullL'' \<mapsto> 0.7,
              ''CTRL_expressions_mouthCornerPullR'' \<mapsto> (0.7::real)]"
  have "?R \<in> set (filter (\<lambda>r. target r = ''C_CornerPullL_CornerPullR'') METAHUMAN_TO_CC5_MAPPING)"
    unfolding rules_for_CornerPullL_CornerPullR by simp
  then have mem: "?R \<in> set METAHUMAN_TO_CC5_MAPPING"
    by simp
  have notTeeth: "target ?R \<notin> set teethCorrectives"
    by (simp add: teethCorrectives_def)
  note inst = add_rules_multiply_into_target
               [where r = ?R and mh = ?mh and opts = "\<lparr>teethDownOffset = None\<rparr>"
                  and a = "''CTRL_expressions_mouthCornerPullL''"
                  and b = "''CTRL_expressions_mouthCornerPullR''"]
  note C = inst [THEN conjunct2, THEN conjunct2, THEN conjunct2, THEN conjunct1]
  note E = inst [THEN conjunct2, THEN conjunct2, THEN conjunct2, THEN conjunct2, THEN conjunct2,
                 THEN conjunct1]
  from C mem notTeeth
  have "map_of (convertMetaHumanToCC5 ?mh \<lparr>teethDownOffset = None\<rparr>) (target ?R) =
          Some (prod_list (map (curvedValue ?mh)
                  (filter (\<lambda>r'. target r' = target ?R) METAHUMAN_TO_CC5_MAPPING)))"
    by blast
  moreover from E have "curvedValue ?mh ?R = 0.49"
    by simp
  ultimately have first: "map_of (convertMetaHumanToCC5 ?mh \<lparr>teethDownOffset = None\<rparr>)
                            ''C_CornerPullL_CornerPullR'' = Some 0.49"
    by (simp add: rules_for_CornerPullL_CornerPullR)
  let ?A = "\<lparr>name = ''A'', source = [''a''], target = ''X'', mode = Add, curve = None\<rparr>"
  let ?B = "\<lparr>name = ''B'', source = [''b''], target = ''X'', mode = Add, curve = None\<rparr>"
  let ?ab = "[''a'' \<mapsto> 0.5, ''b'' \<mapsto> (0.25::real)]"
  note two = add_rules_multiply_into_target [where ?r1.0 = ?A and ?r2.0 = ?B and mh = ?ab]
  note a = add_rules_multiply_into_target
             [where r = ?A and mh = ?ab, THEN conjunct2, THEN conjunct1]
  note b = add_rules_multiply_into_target
             [where r = ?B and mh = ?ab, THEN conjunct2, THEN conjunct1]
  from two [THEN conjunct2, THEN conjunct2, THEN conjunct2, THEN conjunct2, THEN conjunct1]
  have prod: "map_of (mappingPass [?A, ?B] ?ab) ''X''
                = Some (curvedValue ?ab ?A * curvedValue ?ab ?B)"
    by simp
  from a have cA: "curvedValue ?ab ?A = 0.5"
    by (simp add: evaluateCurve_def sourceValue_def)
  from b have cB: "curvedValue ?ab ?B = 0.25"
    by (simp add: evaluateCurve_def sourceValue_def)
  have second: "map_of (mappingPass [?A, ?B] ?ab) ''X'' = Some 0.125"
    unfolding prod cA cB by simp
  let ?Blink = "\<lparr>name = ''BlinkL'', source = [''CTRL_expressions_eyeBlinkL''],
                 target = ''C_BlinkL'', mode = Add,
                 curve = Some [\<lparr>time = 0, val = 0\<rparr>, \<lparr>time = 0.5, val = 1\<rparr>,
                               \<lparr>time = 1, val = 0\<rparr>]\<rparr>"
  note blink = add_rules_multiply_into_target
                 [where r = ?Blink and mh = "[''CTRL_expressions_eyeBlinkL'' \<mapsto> 0.5]"
                    and a = "''CTRL_expressions_eyeBlinkL''"
                    and opts = "\<lparr>teethDownOffset = None\<rparr>"]
  from blink [THEN conjunct2, THEN conjunct2, THEN conjunct2, THEN conjunct2, THEN conjunct2,
              THEN conjunct2, THEN conjunct2, THEN conjunct1]
  have third: "curvedValue [''CTRL_expressions_eyeBlinkL'' \<mapsto> 0.5] ?Blink = 1"
    by simp
  from blink [THEN conjunct2, THEN conjunct2, THEN conjunct2, THEN conjunct2, THEN conjunct2,
              THEN conjunct2, THEN conjunct2, THEN conjunct2, THEN conjunct1]
  have fourth: "map_of (convertMetaHumanToCC5 [''CTRL_expressions_eyeBlinkL'' \<mapsto> 0.5]
                          \<lparr>teethDownOffset = None\<rparr>) ''C_BlinkL'' = Some 1" .
  from first second third fourth show ?thesis by blast
qed

text \<open>
  Claim C4. A Limit-mode rule with one source passes that value through; with more
  sources every later value is capped by the first and the capped values are multiplied.
  The result goes through the rule's curve (a curve from \<open>(0, 0)\<close> to \<open>(1, c)\<close> scales
  the clamped result by \<open>c\<close>) and is set as, or multiplied into, the target's value: one
  step of the pass does so, the pass over a rule list ending in the rule does so, and
  after the pass, in the table of the source as in any rule list, the target holds the
  product of the contributions of its rules. With the identity curve, limit 0.3 and
  second source 0.8 give 0.3, and limit 0.8 and second source 0.3 give 0.3. The converter
  gives \<open>eyeLidPressL = 0.3\<close> for \<open>eyeBlinkL = 0.3\<close>, and 1 for \<open>eyeBlinkL = 1.5\<close>.
\<close>

theorem limit_rules_cap_by_first_source:
  "(mode r = Limit \<and> source r = [s0] \<longrightarrow> combinedValue mh r = sourceValue mh s0)
   \<and> (mode r = Limit \<and> source r = s0 # s1 # rest \<longrightarrow>
        combinedValue mh r =
          prod_list (map (\<lambda>k. min (sourceValue mh s0) (sourceValue mh k)) (s1 # rest)))
   \<and> curvedValue mh r = evaluateCurve (curve r) (combinedValue mh r)
   \<and> map_of (applyMapping mh cc5 r) (target r) =
        Some (case map_of cc5 (target r) of
                Some old \<Rightarrow> old * curvedValue mh r
              | None \<Rightarrow> curvedValue mh r)
   \<and> (mode r = Limit \<and> source r = [a, b]
        \<and> curve r = Some [\<lparr>time = 0, val = 0\<rparr>, \<lparr>time = 1, val = 1\<rparr>]
        \<and> mh a = Some 0.3 \<and> mh b = Some 0.8 \<longrightarrow>
        curvedValue mh r = 0.3)
   \<and> (mode r = Limit \<and> source r = [a, b]
        \<and> curve r = Some [\<lparr>time = 0, val = 0\<rparr>, \<lparr>time = 1, val = 1\<rparr>]
        \<and> mh a = Some 0.8 \<and> mh b = Some 0.3 \<longrightarrow>
        curvedValue mh r = 0.3)
   \<and> (mode r = Limit \<and> curve r = Some [\<lparr>time = 0, val = 0\<rparr>, \<lparr>time = 1, val = c\<rparr>] \<longrightarrow>
        curvedValue mh r = c * max 0 (min 1 (combinedValue mh r)))
   \<and> map_of (mappingPass (rules @ [r]) mh) (target r) =
        Some (case map_of (mappingPass rules mh) (target r) of
                Some old \<Rightarrow> old * curvedValue mh r
              | None \<Rightarrow> curvedValue mh r)
   \<and> (r \<in> set rules \<longrightarrow>
        map_of (mappingPass rules mh) (target r) =
          Some (prod_list (map (curvedValue mh) (filter (\<lambda>r'. target r' = target r) rules))))
   \<and> (r \<in> set METAHUMAN_TO_CC5_MAPPING \<and> target r \<notin> set teethCorrectives \<longrightarrow>
        map_of (convertMetaHumanToCC5 mh opts) (target r) =
          Some (prod_list (map (curvedValue mh)
                  (filter (\<lambda>r'. target r' = target r) METAHUMAN_TO_CC5_MAPPING))))
   \<and> map_of (convertMetaHumanToCC5 [''CTRL_expressions_eyeBlinkL'' \<mapsto> 0.3] opts)
        ''CTRL_expressions_eyeLidPressL'' = Some 0.3
   \<and> map_of (convertMetaHumanToCC5 [''CTRL_expressions_eyeBlinkL'' \<mapsto> 1.5] opts)
        ''CTRL_expressions_eyeLidPressL'' = Some 1"
proof -
  have A: "combinedValue mh r = sourceValue mh s0" if "mode r = Limit" "source r = [s0]"
    using that by (simp add: combinedValue_Limit)
  have B: "combinedValue mh r =
             prod_list (map (\<lambda>k. min (sourceValue mh s0) (sourceValue mh k)) (s1 # rest))"
    if "mode r = Limit" "source r = s0 # s1 # rest"
    using that by (simp add: combinedValue_Limit)
  have C: "map_of (applyMapping mh cc5 r) (target r) =
        Some (case map_of cc5 (target r) of
                Some old \<Rightarrow> old * curvedValue mh r
              | None \<Rightarrow> curvedValue mh r)"
    by (simp add: map_of_applyMapping)
  have E: "curvedValue mh r = 0.3"
    if "mode r = Limit" "source r = [a, b]"
       "curve r = Some [\<lparr>time = 0, val = 0\<rparr>, \<lparr>time = 1, val = 1\<rparr>]"
       "mh a = Some 0.3" "mh b = Some 0.8"
    using that by (simp add: curvedValue_eq combinedValue_Limit identity_curve sourceValue_def)
  have F: "curvedValue mh r = 0.3"
    if "mode r = Limit" "source r = [a, b]"
       "curve r = Some [\<lparr>time = 0, val = 0\<rparr>, \<lparr>time = 1, val = 1\<rparr>]"
       "mh a = Some 0.8" "mh b = Some 0.3"
    using that by (simp add: curvedValue_eq combinedValue_Limit identity_curve sourceValue_def)
  have G: "curvedValue mh r = c * max 0 (min 1 (combinedValue mh r))"
    if "curve r = Some [\<lparr>time = 0, val = 0\<rparr>, \<lparr>time = 1, val = c\<rparr>]"
    using that by (simp add: curvedValue_eq linear_curve)
  have H: "map_of (mappingPass (rules @ [r]) mh) (target r) =
        Some (case map_of (mappingPass rules mh) (target r) of
                Some old \<Rightarrow> old * curvedValue mh r
              | None \<Rightarrow> curvedValue mh r)"
    by (rule map_of_mappingPass_snoc)
  have I: "map_of (mappingPass rules mh) (target r) =
             Some (prod_list (map (curvedValue mh) (filter (\<lambda>r'. target r' = target r) rules)))"
    if "r \<in> set rules"
    using that by (rule map_of_mappingPass_member)
  have J: "map_of (convertMetaHumanToCC5 mh opts) (target r) =
             Some (prod_list (map (curvedValue mh)
                     (filter (\<lambda>r'. target r' = target r) METAHUMAN_TO_CC5_MAPPING)))"
    if "r \<in> set METAHUMAN_TO_CC5_MAPPING" "target r \<notin> set teethCorrectives"
    using that by (rule map_of_convert_member)
  have K: "map_of (convertMetaHumanToCC5 [''CTRL_expressions_eyeBlinkL'' \<mapsto> 0.3] opts)
             ''CTRL_expressions_eyeLidPressL'' = Some 0.3"
    by (simp add: convertMetaHumanToCC5_def map_of_convertMetaHumanToCC5_with
          map_of_mappingPass rules_for_eyeLidPressL teethCorrectives_def
          curvedValue_eq combinedValue_def sourceValue_def identity_curve)
  have L: "map_of (convertMetaHumanToCC5 [''CTRL_expressions_eyeBlinkL'' \<mapsto> 1.5] opts)
             ''CTRL_expressions_eyeLidPressL'' = Some 1"
    by (simp add: convertMetaHumanToCC5_def map_of_convertMetaHumanToCC5_with
          map_of_mappingPass rules_for_eyeLidPressL teethCorrectives_def
          curvedValue_eq combinedValue_def sourceValue_def identity_curve)
  show ?thesis
    using A B C E F G H I J K L curvedValue_eq by blast
qed

theorem limit_rules_cap_by_first_source_witness:
  "curvedValue [''limit'' \<mapsto> 0.3, ''second'' \<mapsto> 0.8]
     \<lparr>name = ''L'', source = [''limit'', ''second''], target = ''T'', mode = Limit,
      curve = Some [\<lparr>time = 0, val = 0\<rparr>, \<lparr>time = 1, val = 1\<rparr>]\<rparr> = 0.3
   \<and> curvedValue [''limit'' \<mapsto> 0.8, ''second'' \<mapsto> 0.3]
     \<lparr>name = ''L'', source = [''limit'', ''second''], target = ''T'', mode = Limit,
      curve = Some [\<lparr>time = 0, val = 0\<rparr>, \<lparr>time = 1, val = 1\<rparr>]\<rparr> = 0.3
   \<and> combinedValue [''CTRL_expressions_eyeBlinkL'' \<mapsto> 0.3]
     \<lparr>name = ''EyeLidPress_Blink_L'', source = [''CTRL_expressions_eyeBlinkL''],
      target = ''CTRL_expressions_eyeLidPressL'', mode = Limit,
      curve = Some [\<lparr>time = 0, val = 0\<rparr>, \<lparr>time = 1, val = 1\<rparr>]\<rparr> = 0.3
   \<and> map_of (mappingPass
               [\<lparr>name = ''H'', source = [''limit'', ''second''], target = ''T'', mode = Limit,
                 curve = Some [\<lparr>time = 0, val = 0\<rparr>, \<lparr>time = 1, val = 0.5\<rparr>]\<rparr>]
               [''limit'' \<mapsto> 0.8, ''second'' \<mapsto> 0.6])
       ''T'' = Some 0.3
   \<and> map_of (convertMetaHumanToCC5 [''CTRL_expressions_eyeBlinkL'' \<mapsto> 0.3]
                \<lparr>teethDownOffset = None\<rparr>)
       ''CTRL_expressions_eyeLidPressL'' = Some 0.3"
proof -
  let ?L = "\<lparr>name = ''L'', source = [''limit'', ''second''], target = ''T'', mode = Limit,
             curve = Some [\<lparr>time = 0, val = 0\<rparr>, \<lparr>time = 1, val = 1\<rparr>]\<rparr>"
  let ?P = "\<lparr>name = ''EyeLidPress_Blink_L'', source = [''CTRL_expressions_eyeBlinkL''],
             target = ''CTRL_expressions_eyeLidPressL'', mode = Limit,
             curve = Some [\<lparr>time = 0, val = 0\<rparr>, \<lparr>time = 1, val = 1\<rparr>]\<rparr>"
  note lo = limit_rules_cap_by_first_source
              [where r = ?L and mh = "[''limit'' \<mapsto> 0.3, ''second'' \<mapsto> 0.8]"
                 and a = "''limit''" and b = "''second''",
               THEN conjunct2, THEN conjunct2, THEN conjunct2, THEN conjunct2, THEN conjunct1]
  note hi = limit_rules_cap_by_first_source
              [where r = ?L and mh = "[''limit'' \<mapsto> 0.8, ''second'' \<mapsto> 0.3]"
                 and a = "''limit''" and b = "''second''",
               THEN conjunct2, THEN conjunct2, THEN conjunct2, THEN conjunct2, THEN conjunct2,
               THEN conjunct1]
  note single = limit_rules_cap_by_first_source
              [where r = ?P and mh = "[''CTRL_expressions_eyeBlinkL'' \<mapsto> 0.3]"
                 and ?s0.0 = "''CTRL_expressions_eyeBlinkL''", THEN conjunct1]
  have "curvedValue [''limit'' \<mapsto> 0.3, ''second'' \<mapsto> 0.8] ?L = 0.3"
    using lo by simp
  moreover have "curvedValue [''limit'' \<mapsto> 0.8, ''second'' \<mapsto> 0.3] ?L = 0.3"
    using hi by simp
  moreover have "combinedValue [''CTRL_expressions_eyeBlinkL'' \<mapsto> 0.3] ?P = 0.3"
    using single by (simp add: sourceValue_def)
  ultimately have basic:
    "curvedValue [''limit'' \<mapsto> 0.3, ''second'' \<mapsto> 0.8] ?L = 0.3
     \<and> curvedValue [''limit'' \<mapsto> 0.8, ''second'' \<mapsto> 0.3] ?L = 0.3
     \<and> combinedValue [''CTRL_expressions_eyeBlinkL'' \<mapsto> 0.3] ?P = 0.3"
    by blast
  let ?H = "\<lparr>name = ''H'', source = [''limit'', ''second''], target = ''T'', mode = Limit,
             curve = Some [\<lparr>time = 0, val = 0\<rparr>, \<lparr>time = 1, val = 0.5\<rparr>]\<rparr>"
  let ?mh = "[''limit'' \<mapsto> 0.8, ''second'' \<mapsto> (0.6::real)]"
  note half = limit_rules_cap_by_first_source
                [where r = ?H and mh = ?mh and rules = "[?H]" and c = "0.5"
                   and ?s0.0 = "''limit''" and ?s1.0 = "''second''" and rest = "[]"]
  from half [THEN conjunct2, THEN conjunct1]
  have cv: "combinedValue ?mh ?H = 0.6"
    by (simp add: sourceValue_def)
  from half [THEN conjunct2, THEN conjunct2, THEN conjunct2, THEN conjunct2, THEN conjunct2,
             THEN conjunct2, THEN conjunct1]
  have cu: "curvedValue ?mh ?H = 0.5 * max 0 (min 1 (combinedValue ?mh ?H))"
    by simp
  from half [THEN conjunct2, THEN conjunct2, THEN conjunct2, THEN conjunct2, THEN conjunct2,
             THEN conjunct2, THEN conjunct2, THEN conjunct2, THEN conjunct1]
  have pass: "map_of (mappingPass [?H] ?mh) ''T'' = Some (curvedValue ?mh ?H)"
    by simp
  have scaled: "map_of (mappingPass [?H] ?mh) ''T'' = Some 0.3"
    unfolding pass cu cv by simp
  from limit_rules_cap_by_first_source
         [where opts = "\<lparr>teethDownOffset = None\<rparr>",
          THEN conjunct2, THEN conjunct2, THEN conjunct2, THEN conjunct2, THEN conjunct2,
          THEN conjunct2, THEN conjunct2, THEN conjunct2, THEN conjunct2, THEN conjunct2,
          THEN conjunct1]
  have conv: "map_of (convertMetaHumanToCC5 [''CTRL_expressions_eyeBlinkL'' \<mapsto> 0.3]
                        \<lparr>teethDownOffset = None\<rparr>)
                ''CTRL_expressions_eyeLidPressL'' = Some 0.3" .
  from basic scaled conv show ?thesis by blast
qed

text \<open>
  Claim C5, the code at the failing input. Called without options, as the playback path
  calls it, \<open>convertMetaHumanToCC5\<close> uses the offset 0: with every input 0 the two
  funnel and lower-lip targets are 0, not 0.3. With the offset 0.3 passed explicitly they
  are 0.3, and a value of 0.8 before the offset becomes 1.
\<close>

theorem teeth_offset_default_is_zero:
  "map_of (convertMetaHumanToCC5 Map.empty \<lparr>teethDownOffset = None\<rparr>)
     ''C_FunnelDL_LowerLipDepressL'' = Some 0
   \<and> map_of (convertMetaHumanToCC5 Map.empty \<lparr>teethDownOffset = None\<rparr>)
     ''C_FunnelDR_LowerLipDepressR'' = Some 0
   \<and> map_of (convertMetaHumanToCC5 Map.empty \<lparr>teethDownOffset = Some 0.3\<rparr>)
     ''C_FunnelDL_LowerLipDepressL'' = Some 0.3
   \<and> map_of (convertMetaHumanToCC5 Map.empty \<lparr>teethDownOffset = Some 0.3\<rparr>)
     ''C_FunnelDR_LowerLipDepressR'' = Some 0.3
   \<and> map_of (applyTeethOffset 0.3 [(''C_FunnelDL_LowerLipDepressL'', 0.8)]
               ''C_FunnelDL_LowerLipDepressL'')
     ''C_FunnelDL_LowerLipDepressL'' = Some 1"
  by (simp add: convertMetaHumanToCC5_def map_of_convertMetaHumanToCC5_with
        map_of_mappingPass rules_for_FunnelDL_LowerLipDepressL
        rules_for_FunnelDR_LowerLipDepressR teethCorrectives_def
        curvedValue_eq combinedValue_Add sourceValue_def evaluateCurve_def
        map_of_applyTeethOffset)

subsection \<open>Range of the converted values\<close>

lemma findBracket_mem:
  "findBracket ks x = Some (a, b) \<Longrightarrow> a \<in> set ks \<and> b \<in> set ks \<and> time a \<le> x \<and> x \<le> time b"
  by (induction ks x rule: findBracket.induct) (auto split: if_splits)

lemma interpolation_range:
  fixes va vb ta tb x lo hi :: real
  assumes "lo \<le> va" "va \<le> hi" "lo \<le> vb" "vb \<le> hi" "ta \<le> x" "x \<le> tb" "ta \<noteq> tb"
  shows "lo \<le> va + (vb - va) * ((x - ta) / (tb - ta))"
    and "va + (vb - va) * ((x - ta) / (tb - ta)) \<le> hi"
proof -
  define u where "u = (x - ta) / (tb - ta)"
  from assms have pos: "0 < tb - ta" by simp
  have u0: "0 \<le> u" using assms pos by (simp add: u_def)
  have u1: "u \<le> 1" using assms pos by (simp add: u_def)
  have eq: "va + (vb - va) * u = (1 - u) * va + u * vb" by (simp add: algebra_simps)
  have "(1 - u) * lo \<le> (1 - u) * va" using u1 assms(1) by (simp add: mult_left_mono)
  moreover have "u * lo \<le> u * vb" using u0 assms(3) by (simp add: mult_left_mono)
  ultimately have "(1 - u) * lo + u * lo \<le> (1 - u) * va + u * vb" by linarith
  moreover have "(1 - u) * lo + u * lo = lo" by (simp add: algebra_simps)
  ultimately show "lo \<le> va + (vb - va) * ((x - ta) / (tb - ta))"
    using eq by (simp add: u_def)
  have "(1 - u) * va \<le> (1 - u) * hi" using u1 assms(2) by (simp add: mult_left_mono)
  moreover have "u * vb \<le> u * hi" using u0 assms(4) by (simp add: mult_left_mono)
  ultimately have "(1 - u) * va + u * vb \<le> (1 - u) * hi + u * hi" by linarith
  moreover have "(1 - u) * hi + u * hi = hi" by (simp add: algebra_simps)
  ultimately show "va + (vb - va) * ((x - ta) / (tb - ta)) \<le> hi"
    using eq by (simp add: u_def)
qed

lemma evaluateCurve_range:
  assumes "ks \<noteq> []" and "\<forall>k\<in>set ks. lo \<le> val k \<and> val k \<le> hi"
  shows "lo \<le> evaluateCurve (Some ks) x \<and> evaluateCurve (Some ks) x \<le> hi"
proof -
  define x' where "x' = max 0 (min 1 x)"
  obtain k0 rest where ks: "ks = k0 # rest" using assms(1) by (cases ks) auto
  have first: "lo \<le> val (hd ks) \<and> val (hd ks) \<le> hi"
    using assms by (simp add: ks)
  have lst: "lo \<le> val (last ks) \<and> val (last ks) \<le> hi"
    using assms last_in_set[OF assms(1)] by blast
  have ev: "evaluateCurve (Some ks) x =
              (if x' \<le> time (hd ks) then val (hd ks)
               else if x' \<ge> time (last ks) then val (last ks)
               else (case (case findBracket ks x' of Some p \<Rightarrow> p
                           | None \<Rightarrow> (hd ks, last ks)) of
                       (a, b) \<Rightarrow>
                         if time b - time a = 0 then val a
                         else val a + (val b - val a) * ((x' - time a) / (time b - time a))))"
    unfolding evaluateCurve_def ks x'_def by (simp add: Let_def split: option.split)
  show ?thesis
  proof (cases "x' \<le> time (hd ks)")
    case True
    with first show ?thesis by (simp add: ev)
  next
    case lo: False
    show ?thesis
    proof (cases "x' \<ge> time (last ks)")
      case True
      with lo lst show ?thesis by (simp add: ev)
    next
      case hi: False
      from lo hi findBracket_found[OF assms(1), of x'] obtain a b
        where ab: "findBracket ks x' = Some (a, b)" by force
      from findBracket_mem[OF ab] assms(2)
      have m: "lo \<le> val a" "val a \<le> hi" "lo \<le> val b" "val b \<le> hi"
        "time a \<le> x'" "x' \<le> time b" by auto
      show ?thesis
      proof (cases "time b = time a")
        case True
        with lo hi ab m show ?thesis by (simp add: ev)
      next
        case False
        then have ne: "time a \<noteq> time b" by simp
        from interpolation_range[OF m ne] lo hi ab False show ?thesis
          by (simp add: ev)
      qed
    qed
  qed
qed

lemma curvedValue_range:
  assumes "curve r = Some ks" "ks \<noteq> []" "\<forall>k\<in>set ks. lo \<le> val k \<and> val k \<le> hi"
  shows "lo \<le> curvedValue mh r \<and> curvedValue mh r \<le> hi"
  using evaluateCurve_range[OF assms(2,3)] assms(1) by (simp add: curvedValue_eq)

lemma prod_list_unit_interval:
  fixes xs :: "real list"
  shows "\<forall>x\<in>set xs. 0 \<le> x \<and> x \<le> 1 \<Longrightarrow> 0 \<le> prod_list xs \<and> prod_list xs \<le> 1"
  by (induction xs) (auto simp: mult_le_one)

lemma mult_closed_interval:
  fixes x p c :: real
  assumes "0 \<le> c" "c \<le> 1" "- c \<le> x" "x \<le> 1" "- c \<le> p" "p \<le> 1"
  shows "- c \<le> x * p \<and> x * p \<le> 1"
proof
  show "- c \<le> x * p"
  proof (cases "0 \<le> x"; cases "0 \<le> p")
    assume "0 \<le> x" "0 \<le> p"
    then have "0 \<le> x * p" by simp
    with assms(1) show ?thesis by linarith
  next
    assume "0 \<le> x" "\<not> 0 \<le> p"
    then have "1 * p \<le> x * p" using assms(4) by (intro mult_right_mono_neg) simp_all
    with assms(5) show ?thesis by simp
  next
    assume "\<not> 0 \<le> x" "0 \<le> p"
    then have "x * 1 \<le> x * p" using assms(6) by (intro mult_left_mono_neg) simp_all
    with assms(3) show ?thesis by simp
  next
    assume "\<not> 0 \<le> x" "\<not> 0 \<le> p"
    then have "0 < x * p" by (simp add: mult_neg_neg)
    with assms(1) show ?thesis by linarith
  qed
  have "\<bar>x\<bar> \<le> 1" "\<bar>p\<bar> \<le> 1" using assms by (simp_all add: abs_le_iff)
  then have "\<bar>x\<bar> * \<bar>p\<bar> \<le> 1" by (simp add: mult_le_one)
  then have "\<bar>x * p\<bar> \<le> 1" by (simp add: abs_mult)
  then show "x * p \<le> 1" by linarith
qed

lemma prod_list_closed_interval:
  fixes xs :: "real list" and c :: real
  assumes "0 \<le> c" "c \<le> 1"
  shows "\<forall>x\<in>set xs. - c \<le> x \<and> x \<le> 1 \<Longrightarrow> - c \<le> prod_list xs \<and> prod_list xs \<le> 1"
proof (induction xs)
  case Nil
  from assms show ?case by simp
next
  case (Cons x xs)
  then have "- c \<le> x" "x \<le> 1" "- c \<le> prod_list xs" "prod_list xs \<le> 1" by simp_all
  from mult_closed_interval[OF assms this] show ?case by simp
qed

text \<open>
  Claim C9, as the code has it. Six rules have a curve that starts at the value
  \<open>-0.003497\<close>, so their targets are negative when the source product is 0. For every
  input frame and every teeth offset that is not negative (the default included), every
  value of the returned object lies in \<open>[-0.003497, 1]\<close>, and in \<open>[0, 1]\<close> for every target
  other than those six.
\<close>

theorem convert_output_range:
  assumes "map_of (convertMetaHumanToCC5 mh opts) t = Some v"
    and "case teethDownOffset opts of None \<Rightarrow> True | Some off \<Rightarrow> 0 \<le> off"
  shows "- 0.003497 \<le> v \<and> v \<le> 1
         \<and> (t \<notin> set [''C_CornerPullL_UpperLipRaiseL'', ''C_CornerPullR_UpperLipRaiseR'',
                       ''C_StretchL_LowerLipBite_L'', ''C_StretchR_LowerLipBite_R'',
                       ''C_DimpleL_UpperLipRaiseL'', ''C_DimpleR_UpperLipRaiseR'']
            \<longrightarrow> 0 \<le> v)"
proof -
  let ?six = "[''C_CornerPullL_UpperLipRaiseL'', ''C_CornerPullR_UpperLipRaiseR'',
               ''C_StretchL_LowerLipBite_L'', ''C_StretchR_LowerLipBite_R'',
               ''C_DimpleL_UpperLipRaiseL'', ''C_DimpleR_UpperLipRaiseR'']"
  let ?rs = "filter (\<lambda>r. target r = t) METAHUMAN_TO_CC5_MAPPING"
  let ?p = "prod_list (map (curvedValue mh) ?rs)"
  define off where "off = (case teethDownOffset opts of None \<Rightarrow> 0 | Some v \<Rightarrow> v)"
  have off: "0 \<le> off" using assms(2) by (simp add: off_def split: option.splits)
  have wide: "- 0.003497 \<le> curvedValue mh r \<and> curvedValue mh r \<le> 1" if "r \<in> set ?rs" for r
  proof -
    from that have "r \<in> set METAHUMAN_TO_CC5_MAPPING" by simp
    with table_curves obtain ks where "curve r = Some ks" "ks \<noteq> []"
      "\<forall>k\<in>set ks. - 0.003497 \<le> val k \<and> val k \<le> 1"
      by (fastforce simp: list_all_iff split: option.splits)
    then show ?thesis by (rule curvedValue_range)
  qed
  have narrow: "0 \<le> curvedValue mh r \<and> curvedValue mh r \<le> 1"
    if "r \<in> set ?rs" "t \<notin> set ?six" for r
  proof -
    from that have "r \<in> set METAHUMAN_TO_CC5_MAPPING" "target r \<notin> set ?six" by simp_all
    with table_curves obtain ks where "curve r = Some ks" "ks \<noteq> []"
      "\<forall>k\<in>set ks. 0 \<le> val k \<and> val k \<le> 1"
      by (fastforce simp: list_all_iff split: option.splits)
    then show ?thesis by (rule curvedValue_range)
  qed
  have pw: "- 0.003497 \<le> ?p \<and> ?p \<le> 1"
    using prod_list_closed_interval[of "0.003497" "map (curvedValue mh) ?rs"] wide by simp
  have pn: "0 \<le> ?p \<and> ?p \<le> 1" if "t \<notin> set ?six"
    using prod_list_unit_interval[of "map (curvedValue mh) ?rs"] narrow that by simp
  show ?thesis
  proof (cases "t \<in> set teethCorrectives")
    case False
    with assms(1) have "map_of (mappingPass METAHUMAN_TO_CC5_MAPPING mh) t = Some v"
      by (simp add: convertMetaHumanToCC5_def map_of_convertMetaHumanToCC5_with)
    then have "v = ?p"
      by (simp add: map_of_mappingPass split: if_splits)
    with pw pn show ?thesis by blast
  next
    case True
    then have t: "t = ''C_FunnelDL_LowerLipDepressL'' \<or> t = ''C_FunnelDR_LowerLipDepressR''"
      by (simp add: teethCorrectives_def)
    then have ne: "?rs \<noteq> []"
      using rules_for_FunnelDL_LowerLipDepressL rules_for_FunnelDR_LowerLipDepressR by auto
    from t have nsix: "t \<notin> set ?six" by auto
    from True assms(1) ne have "v = min 1 (?p + off)"
      by (simp add: convertMetaHumanToCC5_def map_of_convertMetaHumanToCC5_with
            map_of_mappingPass off_def)
    with pn[OF nsix] off show ?thesis by simp
  qed
qed

theorem convert_output_range_witness:
  "map_of (convertMetaHumanToCC5 Map.empty \<lparr>teethDownOffset = Some 0.3\<rparr>)
     ''C_FunnelDL_LowerLipDepressL'' = Some 0.3
   \<and> - 0.003497 \<le> (0.3::real) \<and> (0.3::real) \<le> 1 \<and> (0::real) \<le> 0.3"
proof -
  have v: "map_of (convertMetaHumanToCC5 Map.empty \<lparr>teethDownOffset = Some 0.3\<rparr>)
             ''C_FunnelDL_LowerLipDepressL'' = Some 0.3"
    by (simp add: convertMetaHumanToCC5_def map_of_convertMetaHumanToCC5_with
          map_of_mappingPass rules_for_FunnelDL_LowerLipDepressL teethCorrectives_def
          curvedValue_eq combinedValue_Add sourceValue_def evaluateCurve_def)
  have o: "case teethDownOffset \<lparr>teethDownOffset = Some (0.3::real)\<rparr> of
             None \<Rightarrow> True | Some off \<Rightarrow> 0 \<le> off"
    by simp
  from convert_output_range[OF v o] v show ?thesis by simp
qed

text \<open>
  The claim as stated fails: with the corner pull at 1 and the upper-lip raise absent, all
  input values lie in \<open>[0, 1]\<close> and the target \<open>C_CornerPullL_UpperLipRaiseL\<close> is
  \<open>-0.003497\<close>.
\<close>

theorem convert_output_negative_counterexample:
  "map_of (convertMetaHumanToCC5 [''CTRL_expressions_mouthCornerPullL'' \<mapsto> 1]
             \<lparr>teethDownOffset = None\<rparr>)
     ''C_CornerPullL_UpperLipRaiseL'' = Some (- 0.003497)
   \<and> (- 0.003497 :: real) < 0"
  by (simp add: convertMetaHumanToCC5_def map_of_convertMetaHumanToCC5_with
        map_of_mappingPass rules_for_CornerPullL_UpperLipRaiseL teethCorrectives_def
        curvedValue_eq combinedValue_Add sourceValue_def evaluateCurve_def)

subsection \<open>Playback scheduler\<close>

lemma targetFrameIndex_eq:
  "targetFrameIndex now start = \<lfloor>((now - start) / 1000) * 60 + 15\<rfloor>"
  by (simp only: targetFrameIndex_def TARGET_FPS_def FRAME_OFFSET_def Let_def)

lemma targetFrameIndex_mono:
  "now \<le> now' \<Longrightarrow> targetFrameIndex now start \<le> targetFrameIndex now' start"
  unfolding targetFrameIndex_eq by (intro floor_mono) simp

lemma useFrame_ApplyFrame:
  assumes "useFrame st (Some frames) now = (st', q', ApplyFrame f w ls js)"
  shows "0 \<le> frameIndex now (startTime st) frames
         \<and> frameIndex now (startTime st) frames < int (length frames)
         \<and> f = frames ! nat (frameIndex now (startTime st) frames)"
  using assms by (auto simp: useFrame_def Let_def split: if_splits)

text \<open>
  Claim C3. The frame index of a tick is \<open>min(floor(((now - startTime) / 1000) * 60 + 15),
  frames.length - 1)\<close>; it never exceeds \<open>frames.length - 1\<close>; for a fixed start time and
  frame list it does not decrease when \<open>now\<close> grows from the start time on; and the frame
  a tick applies is the one at that index.
\<close>

theorem frameIndex_monotone_and_bounded:
  "frameIndex now start frames =
     min \<lfloor>((now - start) / 1000) * 60 + 15\<rfloor> (int (length frames) - 1)
   \<and> frameIndex now start frames \<le> int (length frames) - 1
   \<and> (start \<le> now \<and> now \<le> now' \<longrightarrow>
        frameIndex now start frames \<le> frameIndex now' start frames)
   \<and> (useFrame st (Some frames) now = (st', q', ApplyFrame f w ls js) \<longrightarrow>
        0 \<le> frameIndex now (startTime st) frames
        \<and> f = frames ! nat (frameIndex now (startTime st) frames))"
proof -
  have "frameIndex now start frames \<le> frameIndex now' start frames" if "now \<le> now'"
    unfolding frameIndex_def using targetFrameIndex_mono[OF that, of start]
    by (intro min.mono) simp_all
  moreover have "frameIndex now start frames =
                   min \<lfloor>((now - start) / 1000) * 60 + 15\<rfloor> (int (length frames) - 1)"
    by (simp only: frameIndex_def targetFrameIndex_eq)
  moreover have "frameIndex now start frames \<le> int (length frames) - 1"
    by (simp only: frameIndex_def min.cobounded2)
  ultimately show ?thesis
    using useFrame_ApplyFrame[of st frames now st' q' f w ls js] by blast
qed

theorem frameIndex_monotone_and_bounded_witness:
  "frameIndex 100 0 (replicate 40 (ArrayFrame [1])) = 21
   \<and> frameIndex 200 0 (replicate 40 (ArrayFrame [1])) = 27
   \<and> frameIndex 2000 0 (replicate 40 (ArrayFrame [1])) = 39
   \<and> frameIndex 100 0 (replicate 40 (ArrayFrame [1]))
        \<le> frameIndex 200 0 (replicate 40 (ArrayFrame [1]))
   \<and> useFrame \<lparr>isPlaying = True, startTime = 0, currentFrameIndex = 0, isDraining = False,
                 fadeInWeight = 0\<rparr> (Some [ArrayFrame [1]]) 0
       = (\<lparr>isPlaying = True, startTime = 0, currentFrameIndex = 0, isDraining = False,
           fadeInWeight = 0\<rparr>, Some [ArrayFrame [1]], ApplyFrame (ArrayFrame [1]) 0 0.8 0.8)
   \<and> ArrayFrame [1] = [ArrayFrame [1]] ! nat (frameIndex 0 0 [ArrayFrame [1]])"
proof -
  let ?st = "\<lparr>isPlaying = True, startTime = 0, currentFrameIndex = 0, isDraining = False,
              fadeInWeight = 0\<rparr>"
  have idx: "frameIndex 100 0 (replicate 40 (ArrayFrame [1])) = 21
             \<and> frameIndex 200 0 (replicate 40 (ArrayFrame [1])) = 27
             \<and> frameIndex 2000 0 (replicate 40 (ArrayFrame [1])) = 39
             \<and> frameIndex 100 0 (replicate 40 (ArrayFrame [1]))
                  \<le> frameIndex 200 0 (replicate 40 (ArrayFrame [1]))"
    using frameIndex_monotone_and_bounded [of 100 0 "replicate 40 (ArrayFrame [1])" 200]
          frameIndex_monotone_and_bounded [of 200 0 "replicate 40 (ArrayFrame [1])"]
          frameIndex_monotone_and_bounded [of 2000 0 "replicate 40 (ArrayFrame [1])"]
    by simp
  have tick: "useFrame ?st (Some [ArrayFrame [1]]) 0
                = (?st, Some [ArrayFrame [1]], ApplyFrame (ArrayFrame [1]) 0 0.8 0.8)"
    by (simp add: useFrame_def Let_def frameIndex_def targetFrameIndex_eq isValidFrame_def
          LIPSYNC_FADE_IN_DURATION_def LIPSYNC_LERP_SPEED_def JAW_LERP_SPEED_def)
  from frameIndex_monotone_and_bounded
         [of 0 0 "[ArrayFrame [1]]" 0 ?st ?st "Some [ArrayFrame [1]]" "ArrayFrame [1]" 0 "0.8" "0.8",
          THEN conjunct2, THEN conjunct2, THEN conjunct2] tick
  have "ArrayFrame [1] = [ArrayFrame [1]] ! nat (frameIndex 0 (startTime ?st) [ArrayFrame [1]])"
    by blast
  with idx tick show ?thesis by simp
qed

text \<open>
  Claim C7, as the code has it. A tick ends with the warning about an invalid frame exactly
  when playback is on, the queue has frames, the tick does not finish a draining queue,
  and the frame at the computed index is not valid. The queue is then left as it is and
  \<open>isPlaying\<close>, \<open>startTime\<close>, \<open>currentFrameIndex\<close> and \<open>isDraining\<close> keep their
  values; \<open>fadeInWeight\<close> has been set to \<open>min(1, elapsedSec / 0.3)\<close> before the frame
  was looked at.
\<close>

theorem invalid_frame_skips_tick:
  "useFrame st (Some frames) now = (st', q', WarnInvalidFrame i)
   \<longleftrightarrow>
   (isPlaying st \<and> frames \<noteq> []
    \<and> i = frameIndex now (startTime st) frames
    \<and> \<not> (i \<ge> int (length frames) - 1 \<and> isDraining st)
    \<and> 0 \<le> i \<and> i < int (length frames)
    \<and> \<not> isValidFrame (frames ! nat i)
    \<and> q' = Some frames
    \<and> st' = st\<lparr>fadeInWeight := min 1 (((now - startTime st) / 1000) / 0.3)\<rparr>)"
  by (auto simp: useFrame_def Let_def LIPSYNC_FADE_IN_DURATION_def split: if_splits)

theorem invalid_frame_skips_tick_witness:
  "useFrame \<lparr>isPlaying = True, startTime = 0, currentFrameIndex = 0, isDraining = False,
             fadeInWeight = 0\<rparr> (Some [ObjectFrame []]) 150
   = (\<lparr>isPlaying = True, startTime = 0, currentFrameIndex = 0, isDraining = False,
       fadeInWeight = 0.5\<rparr>, Some [ObjectFrame []], WarnInvalidFrame 0)"
  using invalid_frame_skips_tick
          [of "\<lparr>isPlaying = True, startTime = 0, currentFrameIndex = 0, isDraining = False,
                fadeInWeight = 0\<rparr>" "[ObjectFrame []]" 150
              "\<lparr>isPlaying = True, startTime = 0, currentFrameIndex = 0, isDraining = False,
                fadeInWeight = 0.5\<rparr>" "Some [ObjectFrame []]" 0]
  by (simp add: frameIndex_def targetFrameIndex_eq isValidFrame_def)

text \<open>
  The claim as stated fails for \<open>fadeInWeight\<close>: 150 ms after the start, with the empty
  object as the only frame, the tick warns and leaves \<open>fadeInWeight\<close> at 0.5, not at
  the 0 it had.
\<close>

theorem invalid_frame_changes_fadeInWeight_counterexample:
  "fadeInWeight (fst (useFrame \<lparr>isPlaying = True, startTime = 0, currentFrameIndex = 0,
                                isDraining = False, fadeInWeight = 0\<rparr>
                        (Some [ObjectFrame []]) 150)) = 0.5
   \<and> snd (snd (useFrame \<lparr>isPlaying = True, startTime = 0, currentFrameIndex = 0,
                          isDraining = False, fadeInWeight = 0\<rparr>
                  (Some [ObjectFrame []]) 150)) = WarnInvalidFrame 0
   \<and> fadeInWeight \<lparr>isPlaying = True, startTime = 0, currentFrameIndex = 0,
                    isDraining = False, fadeInWeight = 0\<rparr> = 0"
  by (simp add: useFrame_def Let_def frameIndex_def targetFrameIndex_eq isValidFrame_def
        LIPSYNC_FADE_IN_DURATION_def)

subsection \<open>Jaw rotation\<close>

text \<open>
  Claim C8, as the code has it. The jaw rotation is the closed rotation plus the jaw value
  clamped to \<open>[0, 1]\<close> times the rotation range; the configured constants are 1.5708 rad
  closed and a range of 0.4363 rad, so the fully open rotation is 2.0071 rad (115 degrees
  in \<open>JAW_CONFIG\<close>). The sibling hook's identity jaw curve changes nothing.
\<close>

theorem jawValueToRotation_range:
  "jawValueToRotation b v = 1.5708 + max 0 (min 1 v) * 0.4363
   \<and> jawValueToRotation b 0 = 1.5708
   \<and> jawValueToRotation b 1 = 2.0071
   \<and> jawValueToRotation b 1 = MAX_OPEN_ROTATION
   \<and> jawValueToRotation b 0 = CLOSED_ROTATION
   \<and> jawValueToRotation b 1 = CLOSED_ROTATION + ROTATION_RANGE
   \<and> jawValueToRotation_arkit b v = jawValueToRotation b v"
  by (simp add: jawValueToRotation_def jawValueToRotation_arkit_def evaluateJawCurve_def
        JAW_OPEN_CURVE_def evaluateCurve_def CLOSED_ROTATION_def ROTATION_RANGE_def
        MAX_OPEN_ROTATION_def Let_def)

text \<open>
  The claim's fully open rotation of about 1.7384 rad fails: the code gives 2.0071 rad,
  0.2687 rad more.
\<close>

theorem jawValueToRotation_open_counterexample:
  "jawValueToRotation 0 1 = 2.0071 \<and> (2.0071::real) - 1.7384 = 0.2687"
  by (simp add: jawValueToRotation_def CLOSED_ROTATION_def ROTATION_RANGE_def)

subsection \<open>Channel smoother\<close>

lemma currentValue_applyMorphValueSmooth:
  "morphCache nm = Some targets \<Longrightarrow>
     currentValue (applyMorphValueSmooth morphCache r nm tv rate) nm =
       currentValue r nm + (tv - currentValue r nm) * rate"
  by (simp add: applyMorphValueSmooth_def currentValue_def Let_def)

lemma applyMorphValueSmooth_uncached:
  "morphCache nm = None \<Longrightarrow> applyMorphValueSmooth morphCache r nm tv rate = r"
  by (simp add: applyMorphValueSmooth_def)

lemma foldl_write_slots:
  "foldl (\<lambda>inf s'. inf(s' := x)) inf0 ts s = (if s \<in> set ts then x else inf0 s)"
  by (induction ts arbitrary: inf0) auto

lemma influences_applyMorphValueSmooth:
  "morphCache nm = Some targets \<Longrightarrow>
     influences (applyMorphValueSmooth morphCache r nm tv rate) s =
       (if s \<in> set targets then currentValue r nm + (tv - currentValue r nm) * rate
        else influences r s)"
  by (simp add: applyMorphValueSmooth_def Let_def foldl_write_slots)

lemma smooth_closed_form:
  assumes "morphCache nm = Some targets"
  shows "currentValue (((\<lambda>r. applyMorphValueSmooth morphCache r nm tv rate) ^^ n) r0) nm =
           tv - (tv - currentValue r0 nm) * (1 - rate) ^ n"
proof (induction n)
  case 0
  show ?case by simp
next
  case (Suc n)
  let ?r = "((\<lambda>r. applyMorphValueSmooth morphCache r nm tv rate) ^^ n) r0"
  have "currentValue (((\<lambda>r. applyMorphValueSmooth morphCache r nm tv rate) ^^ Suc n) r0) nm =
          currentValue ?r nm + (tv - currentValue ?r nm) * rate"
    using currentValue_applyMorphValueSmooth[of morphCache nm targets ?r tv rate, OF assms]
    by simp
  also have "\<dots> = tv - (tv - currentValue r0 nm) * (1 - rate) ^ Suc n"
    unfolding Suc.IH by (simp add: algebra_simps)
  finally show ?case .
qed

lemma smooth_tendsto:
  fixes tv p rate :: real
  assumes "0 < rate" "rate < 1"
  shows "(\<lambda>n. tv - (tv - p) * (1 - rate) ^ n) \<longlonglongrightarrow> tv"
proof -
  have pw: "(\<lambda>n. (1 - rate) ^ n) \<longlonglongrightarrow> 0"
    by (rule LIMSEQ_realpow_zero) (use assms in simp_all)
  have "(\<lambda>n. tv - (tv - p) * (1 - rate) ^ n) \<longlonglongrightarrow> tv - (tv - p) * 0"
    by (rule tendsto_diff[OF tendsto_const tendsto_mult[OF tendsto_const pw]])
  then show ?thesis by simp
qed

text \<open>
  Claim C6, as the code has it. For a channel that has an entry in the morph cache, a
  constant target and a rate strictly between 0 and 1, the value after \<open>n\<close> calls is
  \<open>target - (target - previous) * (1 - rate)^n\<close>, where \<open>previous\<close> is the stored value
  before the first call (0 when none is stored). The values converge to the target; each
  call moves the value towards the target and not beyond it; the distance to the target
  does not grow; and each call writes the value to every slot of the channel.
\<close>

theorem smoother_converges_monotonically:
  assumes "morphCache nm = Some targets" and "0 < rate" and "rate < 1"
  shows "let v = (\<lambda>n. currentValue
                        (((\<lambda>r. applyMorphValueSmooth morphCache r nm tv rate) ^^ n) r0) nm)
         in (smoothedMorphValues r0 nm = None \<longrightarrow> v 0 = 0)
          \<and> v (Suc n) = v n + (tv - v n) * rate
          \<and> v n = tv - (tv - v 0) * (1 - rate) ^ n
          \<and> v \<longlonglongrightarrow> tv
          \<and> (v 0 \<le> tv \<longrightarrow> v n \<le> v (Suc n) \<and> v (Suc n) \<le> tv)
          \<and> (tv \<le> v 0 \<longrightarrow> tv \<le> v (Suc n) \<and> v (Suc n) \<le> v n)
          \<and> \<bar>tv - v (Suc n)\<bar> \<le> \<bar>tv - v n\<bar>
          \<and> (\<forall>s\<in>set targets.
               influences (((\<lambda>r. applyMorphValueSmooth morphCache r nm tv rate) ^^ Suc n) r0) s
                 = v (Suc n))"
proof -
  define step where "step = (\<lambda>r. applyMorphValueSmooth morphCache r nm tv rate)"
  define v where "v = (\<lambda>n. currentValue ((step ^^ n) r0) nm)"
  have v0: "v 0 = currentValue r0 nm" by (simp add: v_def)
  have closed: "v n = tv - (tv - v 0) * (1 - rate) ^ n" for n
    unfolding v_def step_def
    using smooth_closed_form[of morphCache nm targets, OF assms(1)] by simp
  have rec: "v (Suc n) = v n + (tv - v n) * rate" for n
    unfolding v_def step_def
    using currentValue_applyMorphValueSmooth[of morphCache nm targets, OF assms(1)] by simp
  have lim: "v \<longlonglongrightarrow> tv"
  proof -
    have "(\<lambda>n. tv - (tv - v 0) * (1 - rate) ^ n) \<longlonglongrightarrow> tv"
      by (rule smooth_tendsto[OF assms(2,3)])
    moreover have "(\<lambda>n. tv - (tv - v 0) * (1 - rate) ^ n) = v"
      by (rule ext) (rule closed[symmetric])
    ultimately show ?thesis by simp
  qed
  have pw: "0 \<le> (1 - rate) ^ n" "(1 - rate) ^ n \<le> 1" for n
    using assms(2,3) by (simp_all add: power_le_one)
  have dist: "tv - v n = (tv - v 0) * (1 - rate) ^ n" for n
    using closed[of n] by simp
  have up: "v n \<le> v (Suc n) \<and> v (Suc n) \<le> tv" if "v 0 \<le> tv" for n
  proof -
    from that pw[of n] have "0 \<le> (tv - v 0) * (1 - rate) ^ n" by simp
    then have d: "0 \<le> tv - v n" by (simp only: dist[of n])
    then have "0 \<le> (tv - v n) * rate" using assms(2) by simp
    moreover have "(tv - v n) * rate \<le> (tv - v n) * 1"
      using d assms(3) by (intro mult_left_mono) simp_all
    ultimately show ?thesis by (simp add: rec)
  qed
  have down: "tv \<le> v (Suc n) \<and> v (Suc n) \<le> v n" if "tv \<le> v 0" for n
  proof -
    from that pw[of n] have "(tv - v 0) * (1 - rate) ^ n \<le> 0"
      by (simp add: mult_nonpos_nonneg)
    then have d: "tv - v n \<le> 0" by (simp only: dist[of n])
    then have "(tv - v n) * rate \<le> 0" using assms(2) by (simp add: mult_nonpos_nonneg)
    moreover have "(tv - v n) * 1 \<le> (tv - v n) * rate"
      using d assms(3) by (intro mult_left_mono_neg) simp_all
    ultimately show ?thesis by (simp add: rec)
  qed
  have shrink: "\<bar>tv - v (Suc n)\<bar> \<le> \<bar>tv - v n\<bar>" for n
    using up[of n] down[of n] by (cases "v 0 \<le> tv") (auto simp: abs_if)
  have slots: "influences ((step ^^ Suc n) r0) s = v (Suc n)" if "s \<in> set targets" for s n
    using that unfolding v_def step_def
    using influences_applyMorphValueSmooth[of morphCache nm targets, OF assms(1)]
          currentValue_applyMorphValueSmooth[of morphCache nm targets, OF assms(1)]
    by simp
  have init: "v 0 = 0" if "smoothedMorphValues r0 nm = None"
    using that by (simp add: v0 currentValue_def)
  show ?thesis
    unfolding Let_def v_def[symmetric] step_def[symmetric]
    using init rec closed lim up down shrink slots by blast
qed

theorem smoother_converges_monotonically_witness:
  "currentValue
     (((\<lambda>r. applyMorphValueSmooth [''C_BlinkL'' \<mapsto> [(0, 3)]] r ''C_BlinkL'' 1 (1 / 2)) ^^ 3)
        \<lparr>smoothedMorphValues = Map.empty, influences = (\<lambda>s. 0), jawBone = None,
         currentJawRotationRef = None\<rparr>) ''C_BlinkL'' = 7 / 8
   \<and> influences
     (((\<lambda>r. applyMorphValueSmooth [''C_BlinkL'' \<mapsto> [(0, 3)]] r ''C_BlinkL'' 1 (1 / 2)) ^^ Suc 2)
        \<lparr>smoothedMorphValues = Map.empty, influences = (\<lambda>s. 0), jawBone = None,
         currentJawRotationRef = None\<rparr>) (0, 3) = 7 / 8"
proof -
  let ?cache = "[''C_BlinkL'' \<mapsto> [(0::nat, 3::nat)]]"
  let ?r0 = "\<lparr>smoothedMorphValues = Map.empty, influences = (\<lambda>s. 0), jawBone = None,
              currentJawRotationRef = None\<rparr>"
  have c: "?cache ''C_BlinkL'' = Some [(0, 3)]" by simp
  have r: "(0::real) < 1 / 2" "(1::real) / 2 < 1" by simp_all
  note inst = smoother_converges_monotonically
                [of ?cache "''C_BlinkL''" "[(0, 3)]" "1 / 2" 1 ?r0, OF c r, unfolded Let_def]
  have v0: "currentValue ?r0 ''C_BlinkL'' = 0" by (simp add: currentValue_def)
  from inst[of 3] v0
  have a: "currentValue
             (((\<lambda>r. applyMorphValueSmooth ?cache r ''C_BlinkL'' 1 (1 / 2)) ^^ 3) ?r0) ''C_BlinkL''
           = 7 / 8"
    by (simp add: power3_eq_cube)
  from inst[of 2] have
    "influences (((\<lambda>r. applyMorphValueSmooth ?cache r ''C_BlinkL'' 1 (1 / 2)) ^^ Suc 2) ?r0) (0, 3)
       = currentValue
           (((\<lambda>r. applyMorphValueSmooth ?cache r ''C_BlinkL'' 1 (1 / 2)) ^^ Suc 2) ?r0) ''C_BlinkL''"
    by simp
  with a show ?thesis by (simp add: eval_nat_numeral)
qed

text \<open>
  The claim as stated fails for a channel without an entry in the morph cache: every call
  returns at once, nothing is stored, and the value stays at 0 however often the call is
  repeated with the target 1.
\<close>

theorem smoother_uncached_channel_counterexample:
  "applyMorphValueSmooth Map.empty
     \<lparr>smoothedMorphValues = Map.empty, influences = (\<lambda>s. 0), jawBone = None,
      currentJawRotationRef = None\<rparr> ''C_BlinkL'' 1 (1 / 2)
   = \<lparr>smoothedMorphValues = Map.empty, influences = (\<lambda>s. 0), jawBone = None,
      currentJawRotationRef = None\<rparr>
   \<and> applyMorphValueSmooth Map.empty
     (applyMorphValueSmooth Map.empty
        (applyMorphValueSmooth Map.empty
           \<lparr>smoothedMorphValues = Map.empty, influences = (\<lambda>s. 0), jawBone = None,
            currentJawRotationRef = None\<rparr> ''C_BlinkL'' 1 (1 / 2))
        ''C_BlinkL'' 1 (1 / 2))
     ''C_BlinkL'' 1 (1 / 2)
   = \<lparr>smoothedMorphValues = Map.empty, influences = (\<lambda>s. 0), jawBone = None,
      currentJawRotationRef = None\<rparr>
   \<and> currentValue \<lparr>smoothedMorphValues = Map.empty, influences = (\<lambda>s. 0), jawBone = None,
                    currentJawRotationRef = None\<rparr> ''C_BlinkL'' = 0"
  by (simp add: applyMorphValueSmooth_def currentValue_def)

subsection \<open>Jaw-open morphs in the MetaHuman-to-CC5 path\<close>

lemma str_includes_iff:
  "str_includes s sub \<longleftrightarrow> (\<exists>ps ss. s = ps @ sub @ ss)"
proof (induction s)
  case Nil
  show ?case by auto
next
  case (Cons c cs)
  show ?case
  proof
    assume "str_includes (c # cs) sub"
    then consider "prefix sub (c # cs)" | "str_includes cs sub" by auto
    then show "\<exists>ps ss. c # cs = ps @ sub @ ss"
    proof cases
      case 1
      then obtain ss where "c # cs = sub @ ss" by (auto simp: prefix_def)
      then have "c # cs = [] @ sub @ ss" by simp
      then show ?thesis by blast
    next
      case 2
      with Cons.IH obtain ps ss where "cs = ps @ sub @ ss" by auto
      then have "c # cs = (c # ps) @ sub @ ss" by simp
      then show ?thesis by blast
    qed
  next
    assume "\<exists>ps ss. c # cs = ps @ sub @ ss"
    then obtain ps ss where eq: "c # cs = ps @ sub @ ss" by blast
    show "str_includes (c # cs) sub"
    proof (cases ps)
      case Nil
      with eq have "prefix sub (c # cs)" by (simp add: prefix_def)
      then show ?thesis by simp
    next
      case (Cons p ps')
      with eq have "cs = ps' @ sub @ ss" by simp
      with Cons.IH have "str_includes cs sub" by blast
      then show ?thesis by simp
    qed
  qed
qed

lemma smoothed_applyMorphValueSmooth_other:
  "nm \<noteq> nm' \<Longrightarrow>
     smoothedMorphValues (applyMorphValueSmooth morphCache r nm' v l) nm = smoothedMorphValues r nm"
  by (simp add: applyMorphValueSmooth_def Let_def split: option.split)

lemma influences_applyMorphValueSmooth_other:
  "\<forall>ts. morphCache nm' = Some ts \<longrightarrow> s \<notin> set ts \<Longrightarrow>
     influences (applyMorphValueSmooth morphCache r nm' v l) s = influences r s"
  by (simp add: applyMorphValueSmooth_def Let_def foldl_write_slots split: option.split)

lemma jaw_applyMorphValueSmooth:
  "jawBone (applyMorphValueSmooth morphCache r nm v l) = jawBone r
   \<and> currentJawRotationRef (applyMorphValueSmooth morphCache r nm v l) = currentJawRotationRef r"
  by (simp add: applyMorphValueSmooth_def Let_def split: option.split)

lemma smoothed_applyCC5Values:
  "isJawOpenMorph nm \<Longrightarrow>
     smoothedMorphValues (applyCC5Values morphCache l r entries) nm = smoothedMorphValues r nm"
proof (induction morphCache l r entries rule: applyCC5Values.induct)
  case (1 morphCache lerpSpeed r)
  show ?case by simp
next
  case (2 morphCache lerpSpeed r morphName v entries)
  then show ?case
    by (cases "nm = morphName") (auto simp: smoothed_applyMorphValueSmooth_other)
qed

lemma influences_applyCC5Values:
  "\<forall>nm ts. morphCache nm = Some ts \<and> s \<in> set ts \<longrightarrow> isJawOpenMorph nm \<Longrightarrow>
     influences (applyCC5Values morphCache l r entries) s = influences r s"
proof (induction morphCache l r entries rule: applyCC5Values.induct)
  case (1 morphCache lerpSpeed r)
  show ?case by simp
next
  case (2 morphCache lerpSpeed r morphName v entries)
  show ?case
  proof (cases "isJawOpenMorph morphName")
    case True
    with 2 show ?thesis by simp
  next
    case False
    with 2(4) have "\<forall>ts. morphCache morphName = Some ts \<longrightarrow> s \<notin> set ts" by blast
    then have "influences (applyMorphValueSmooth morphCache r morphName v lerpSpeed) s
                 = influences r s"
      by (rule influences_applyMorphValueSmooth_other)
    with 2 False show ?thesis by simp
  qed
qed

lemma applyCC5Values_filter:
  "applyCC5Values morphCache l r (filter (\<lambda>(nm, v). \<not> isJawOpenMorph nm) entries)
     = applyCC5Values morphCache l r entries"
  by (induction morphCache l r entries rule: applyCC5Values.induct) auto

lemma applyJawBoneSmooth_morphs:
  "smoothedMorphValues (applyJawBoneSmooth r b jv l) = smoothedMorphValues r
   \<and> influences (applyJawBoneSmooth r b jv l) = influences r"
  by (simp add: applyJawBoneSmooth_def Let_def split: option.split)

text \<open>
  Claim C10. In \<open>applyMetaHumanToCC5\<close> a converted channel whose name contains
  \<open>JawOpen\<close> or \<open>Jaw_Open\<close> is skipped, whether the rig has a jaw bone or not: no
  smoothed value is stored for it, and a slot that only such channels own keeps its
  weight. The loop over the converted values does to all other channels what it would do
  if the jaw-open entries were not there.
\<close>

theorem jaw_open_morphs_never_written:
  "(isJawOpenMorph nm \<longleftrightarrow> (\<exists>ps ss. nm = ps @ ''JawOpen'' @ ss) \<or> (\<exists>ps ss. nm = ps @ ''Jaw_Open'' @ ss))
   \<and> (isJawOpenMorph nm \<longrightarrow>
        smoothedMorphValues
          (applyMetaHumanToCC5 morphCache r order currentFrame fadeIn base lerpSpeed jawLerpSpeed) nm
        = smoothedMorphValues r nm)
   \<and> ((\<forall>nm' ts. morphCache nm' = Some ts \<and> s \<in> set ts \<longrightarrow> isJawOpenMorph nm') \<longrightarrow>
        influences
          (applyMetaHumanToCC5 morphCache r order currentFrame fadeIn base lerpSpeed jawLerpSpeed) s
        = influences r s)
   \<and> applyCC5Values morphCache lerpSpeed r (filter (\<lambda>(nm', v). \<not> isJawOpenMorph nm') entries)
        = applyCC5Values morphCache lerpSpeed r entries"
proof -
  have A: "isJawOpenMorph nm \<longleftrightarrow>
             (\<exists>ps ss. nm = ps @ ''JawOpen'' @ ss) \<or> (\<exists>ps ss. nm = ps @ ''Jaw_Open'' @ ss)"
    unfolding isJawOpenMorph_def str_includes_iff ..
  have B: "smoothedMorphValues
             (applyMetaHumanToCC5 morphCache r order currentFrame fadeIn base lerpSpeed jawLerpSpeed) nm
           = smoothedMorphValues r nm" if "isJawOpenMorph nm"
    using that
    by (simp add: applyMetaHumanToCC5_def Let_def applyJawBoneSmooth_morphs
          smoothed_applyCC5Values)
  have C: "influences
             (applyMetaHumanToCC5 morphCache r order currentFrame fadeIn base lerpSpeed jawLerpSpeed) s
           = influences r s"
    if "\<forall>nm' ts. morphCache nm' = Some ts \<and> s \<in> set ts \<longrightarrow> isJawOpenMorph nm'"
    using influences_applyCC5Values[OF that]
    by (simp add: applyMetaHumanToCC5_def Let_def applyJawBoneSmooth_morphs)
  show ?thesis
    using A B C applyCC5Values_filter by blast
qed

theorem jaw_open_morphs_never_written_witness:
  "isJawOpenMorph ''C_CornerPullL_JawOpen''
   \<and> smoothedMorphValues
       (applyMetaHumanToCC5
          [''C_CornerPullL_JawOpen'' \<mapsto> [(0, 7)], ''C_CornerPullL_CornerPullR'' \<mapsto> [(0, 8)]]
          \<lparr>smoothedMorphValues = Map.empty, influences = (\<lambda>s. 0), jawBone = Some 1.5708,
           currentJawRotationRef = None\<rparr>
          [''CTRL_expressions_jawOpen'', ''CTRL_expressions_mouthCornerPullL'']
          [0.5, 0.5] 1 0 0.8 0.8)
       ''C_CornerPullL_JawOpen'' = None
   \<and> influences
       (applyMetaHumanToCC5
          [''C_CornerPullL_JawOpen'' \<mapsto> [(0, 7)], ''C_CornerPullL_CornerPullR'' \<mapsto> [(0, 8)]]
          \<lparr>smoothedMorphValues = Map.empty, influences = (\<lambda>s. 0), jawBone = Some 1.5708,
           currentJawRotationRef = None\<rparr>
          [''CTRL_expressions_jawOpen'', ''CTRL_expressions_mouthCornerPullL'']
          [0.5, 0.5] 1 0 0.8 0.8)
       (0, 7) = 0"
proof -
  let ?cache = "[''C_CornerPullL_JawOpen'' \<mapsto> [(0::nat, 7::nat)],
                 ''C_CornerPullL_CornerPullR'' \<mapsto> [(0, 8)]]"
  let ?r = "\<lparr>smoothedMorphValues = Map.empty, influences = (\<lambda>s. 0), jawBone = Some 1.5708,
             currentJawRotationRef = None\<rparr>"
  let ?order = "[''CTRL_expressions_jawOpen'', ''CTRL_expressions_mouthCornerPullL'']"
  have j: "isJawOpenMorph ''C_CornerPullL_JawOpen''"
    by (simp add: isJawOpenMorph_def)
  have own: "\<forall>nm' ts. ?cache nm' = Some ts \<and> (0, 7) \<in> set ts \<longrightarrow> isJawOpenMorph nm'"
    using j by (auto split: if_splits)
  note inst = jaw_open_morphs_never_written
                [of "''C_CornerPullL_JawOpen''" ?cache ?r ?order "[0.5, 0.5]" 1 0 "0.8" "0.8" "(0, 7)"]
  from inst j have "smoothedMorphValues
                      (applyMetaHumanToCC5 ?cache ?r ?order [0.5, 0.5] 1 0 0.8 0.8)
                      ''C_CornerPullL_JawOpen'' = smoothedMorphValues ?r ''C_CornerPullL_JawOpen''"
    by blast
  moreover from inst own
  have "influences (applyMetaHumanToCC5 ?cache ?r ?order [0.5, 0.5] 1 0 0.8 0.8) (0, 7)
          = influences ?r (0, 7)"
    by blast
  ultimately show ?thesis using j by simp
qed

end
